theory Spec2Isabelle
  imports Main "HOL-Library.Char_ord" "HOL-Library.List_Lexorder"
begin

section \<open>Conventions\<close>

text \<open>
  The development embeds the cache-aside use cases, the cache repository, the relational
  repositories they load from, and the token service of the manga reader.

  \<^item> Go's \<open>int64\<close> and \<open>int\<close> identifiers, limits and offsets are \<open>int\<close>: the
    code only compares and prints them, it never does arithmetic on them.
  \<^item> Time is counted in whole seconds. The token library cuts every date it stores to the
    second and every configured lifetime is a whole number of seconds, so comparing the second
    in which an instant falls with a stored date gives the same answer as comparing the
    instant itself.
  \<^item> A Go \<open>string\<close> is a \<open>string\<close> (a list of bytes). The message literals of the source
    are Russian; they are spelled here in Latin transliteration.
  \<^item> A method returning \<open>(T, error)\<close> returns \<open>error + T\<close> here, \<open>Inl\<close> carrying the
    error; a method returning only \<open>error\<close> returns \<open>error option\<close>.
  \<^item> Every method takes the state of the outside world and returns it updated.
\<close>

section \<open>Errors\<close>

datatype ErrorCode =
    ErrorCodeInternal | ErrorCodeBadRequest | ErrorCodeUnauthorized | ErrorCodeForbidden
  | ErrorCodeNotFound | ErrorCodeConflict | ErrorCodeValidation | ErrorCodeDatabase
  | ErrorCodeMangaNotFound | ErrorCodeChapterNotFound | ErrorCodePageNotFound
  | ErrorCodeUserNotFound | ErrorCodeUserExists | ErrorCodeInvalidCreds
  | ErrorCodeJWTInvalid | ErrorCodeJWTExpired

text \<open>The flags of the token library's validation error.\<close>

datatype jwt_flag =
    ValidationErrorMalformed | ValidationErrorUnverifiable | ValidationErrorSignatureInvalid
  | ValidationErrorExpired | ValidationErrorIssuedAt | ValidationErrorNotValidYet

text \<open>
  The values of Go's \<open>error\<close> interface that occur: the application's \<open>AppError\<close> (code,
  message, HTTP status, wrapped error), an error made by \<open>errors.New\<close> or \<open>fmt.Errorf\<close>,
  the token library's \<open>ValidationError\<close> (its flags and the text of its inner error), and
  the key-value client's \<open>redis.Nil\<close>.
\<close>

datatype error =
    AppError ErrorCode string int "error option"
  | ErrorString string
  | ValidationError "jwt_flag set" string
  | RedisNil

fun Code :: "error \<Rightarrow> ErrorCode option" where
  "Code (AppError c m s e) = Some c"
| "Code _ = None"

fun Error :: "error \<Rightarrow> string" where
  "Error (AppError c m s None) = m"
| "Error (AppError c m s (Some e)) = m @ '': '' @ Error e"
| "Error (ErrorString s) = s"
| "Error (ValidationError fl inner) = inner"
| "Error RedisNil = ''redis: nil''"

definition NewInternalError :: "string \<Rightarrow> error option \<Rightarrow> error" where
  "NewInternalError msg err = AppError ErrorCodeInternal msg 500 err"

definition NewUnauthorizedError :: "string \<Rightarrow> error option \<Rightarrow> error" where
  "NewUnauthorizedError msg err = AppError ErrorCodeUnauthorized msg 401 err"

definition NewConflictError :: "string \<Rightarrow> error option \<Rightarrow> error" where
  "NewConflictError msg err = AppError ErrorCodeConflict msg 409 err"

definition NewValidationError :: "string \<Rightarrow> error" where
  "NewValidationError msg = AppError ErrorCodeValidation msg 400 None"

definition NewDatabaseError :: "string \<Rightarrow> error option \<Rightarrow> error" where
  "NewDatabaseError msg err = AppError ErrorCodeDatabase msg 500 err"

subsection \<open>Printing an integer with \<open>%d\<close>\<close>

definition digit_char :: "nat \<Rightarrow> char" where
  "digit_char d =
     (if d = 0 then CHR ''0'' else if d = 1 then CHR ''1'' else if d = 2 then CHR ''2''
      else if d = 3 then CHR ''3'' else if d = 4 then CHR ''4'' else if d = 5 then CHR ''5''
      else if d = 6 then CHR ''6'' else if d = 7 then CHR ''7'' else if d = 8 then CHR ''8''
      else CHR ''9'')"

fun digits :: "nat \<Rightarrow> string" where
  "digits n = (if n < 10 then [digit_char n] else digits (n div 10) @ [digit_char (n mod 10)])"

definition fmt_d :: "int \<Rightarrow> string" where
  "fmt_d i = (if i < 0 then CHR ''-'' # digits (nat (- i)) else digits (nat i))"

definition NewMangaNotFoundError :: "int \<Rightarrow> error" where
  "NewMangaNotFoundError ident =
     AppError ErrorCodeMangaNotFound (''Manga s ID '' @ fmt_d ident @ '' ne najdena'') 404 None"

definition NewChapterNotFoundError :: "int \<Rightarrow> error" where
  "NewChapterNotFoundError ident =
     AppError ErrorCodeChapterNotFound (''Glava s ID '' @ fmt_d ident @ '' ne najdena'') 404 None"

definition NewUserNotFoundError :: "string \<Rightarrow> error" where
  "NewUserNotFoundError identifier =
     AppError ErrorCodeUserNotFound (''Pol'zovatel' '' @ identifier @ '' ne najden'') 404 None"

definition NewUserExistsError :: "string \<Rightarrow> error" where
  "NewUserExistsError username =
     AppError ErrorCodeUserExists
       (''Pol'zovatel' s imenem '' @ username @ '' uzhe sushhestvuet'') 409 None"

definition NewJWTInvalidError :: "error \<Rightarrow> error" where
  "NewJWTInvalidError err =
     AppError ErrorCodeJWTInvalid ''Nedejstvitel'nyj token avtorizacii'' 401 (Some err)"

definition NewJWTExpiredError :: error where
  "NewJWTExpiredError =
     AppError ErrorCodeJWTExpired ''Srok dejstvija tokena avtorizacii istek'' 401 None"

section \<open>Entities\<close>

record Manga =
  Manga_ID :: int
  Manga_Title :: string
  Manga_Description :: string
  Manga_CoverImage :: string
  Manga_Status :: string
  Manga_Author :: string
  Manga_Artist :: string
  Manga_Genres :: "string list"
  Manga_CreatedAt :: int
  Manga_UpdatedAt :: int

record MangaFilter =
  Filter_Title :: string
  Filter_Genres :: "string list"
  Filter_Status :: string
  Filter_Limit :: int
  Filter_Offset :: int

text \<open>
  A chapter's number is a \<open>float64\<close> read from a \<open>NUMERIC(8,2)\<close> column; it is kept as the
  number of hundredths.
\<close>

record Chapter =
  Chapter_ID :: int
  Chapter_MangaID :: int
  Chapter_Number :: int
  Chapter_Title :: string
  Chapter_CreatedAt :: int
  Chapter_UpdatedAt :: int

record ChapterWithStats =
  Stats_Chapter :: Chapter
  Stats_Views :: int

record User =
  User_ID :: int
  User_Username :: string
  User_Email :: string
  User_Password :: string
  User_Role :: string
  User_CreatedAt :: int
  User_UpdatedAt :: int

record UserRegistration =
  Reg_Username :: string
  Reg_Email :: string
  Reg_Password :: string

section \<open>Cached text and JSON\<close>

text \<open>
  A text held by the key-value store is represented by what \<open>encoding/json\<close> makes of it:
  the empty text, the encoding of a manga, of a list of manga or of a chapter, or some
  other text (numbered) that no decoder of the use cases accepts. The list of manga that
  the repository returns for no rows is a nil slice, whose encoding \<open>null\<close> is
  \<open>JsonMangaList []\<close>.
\<close>

datatype cached =
    Empty
  | JsonManga Manga
  | JsonMangaList "Manga list"
  | JsonChapter Chapter
  | Garbage nat

definition json_error :: error where
  "json_error = ErrorString ''json: cannot unmarshal''"

text \<open>
  Decoding into a struct ignores unknown keys and leaves absent fields at their zero value,
  so the encoding of a chapter decodes into a manga (and back) on the keys both have:
  \<open>id\<close>, \<open>title\<close>, \<open>created_at\<close>, \<open>updated_at\<close>. Decoding \<open>null\<close> changes
  nothing and succeeds; an array does not decode into a struct, nor an object into a slice.
\<close>

definition zero_Manga :: Manga where
  "zero_Manga =
     \<lparr>Manga_ID = 0, Manga_Title = [], Manga_Description = [], Manga_CoverImage = [],
      Manga_Status = [], Manga_Author = [], Manga_Artist = [], Manga_Genres = [],
      Manga_CreatedAt = 0, Manga_UpdatedAt = 0\<rparr>"

definition zero_Chapter :: Chapter where
  "zero_Chapter =
     \<lparr>Chapter_ID = 0, Chapter_MangaID = 0, Chapter_Number = 0, Chapter_Title = [],
      Chapter_CreatedAt = 0, Chapter_UpdatedAt = 0\<rparr>"

fun Unmarshal_Manga :: "cached \<Rightarrow> error + Manga" where
  "Unmarshal_Manga (JsonManga m) = Inr m"
| "Unmarshal_Manga (JsonMangaList []) = Inr zero_Manga"
| "Unmarshal_Manga (JsonChapter c) =
     Inr \<lparr>Manga_ID = Chapter_ID c, Manga_Title = Chapter_Title c, Manga_Description = [],
          Manga_CoverImage = [], Manga_Status = [], Manga_Author = [], Manga_Artist = [],
          Manga_Genres = [], Manga_CreatedAt = Chapter_CreatedAt c,
          Manga_UpdatedAt = Chapter_UpdatedAt c\<rparr>"
| "Unmarshal_Manga _ = Inl json_error"

fun Unmarshal_MangaList :: "cached \<Rightarrow> error + Manga list" where
  "Unmarshal_MangaList (JsonMangaList ms) = Inr ms"
| "Unmarshal_MangaList _ = Inl json_error"

fun Unmarshal_Chapter :: "cached \<Rightarrow> error + Chapter" where
  "Unmarshal_Chapter (JsonChapter c) = Inr c"
| "Unmarshal_Chapter (JsonMangaList []) = Inr zero_Chapter"
| "Unmarshal_Chapter (JsonManga m) =
     Inr \<lparr>Chapter_ID = Manga_ID m, Chapter_MangaID = 0, Chapter_Number = 0,
          Chapter_Title = Manga_Title m, Chapter_CreatedAt = Manga_CreatedAt m,
          Chapter_UpdatedAt = Manga_UpdatedAt m\<rparr>"
| "Unmarshal_Chapter _ = Inl json_error"

section \<open>The outside world\<close>

text \<open>
  What the use cases observe of a run: the calls that reach a repository interface and the
  lines written to the error log.
\<close>

datatype event =
    CacheGet string | CacheSet string | CacheDelete string
  | MangaRepoCreate | MangaRepoGetByID int | MangaRepoList | MangaRepoUpdate int
  | MangaRepoDelete int
  | ChapterRepoGetByID int
  | UserRepoCreate | UserRepoGetByID int | UserRepoGetByUsername string
  | UserRepoGetByEmail string | UserRepoUpdate int
  | RecordMangaView int | GetChapterViews int | RecordChapterView int int
  | LogError string

text \<open>
  The state of the collaborators. The relational store holds the tables the repositories
  query (\<open>genresTbl\<close> is \<open>genres(id, name)\<close>, \<open>mangaGenresTbl\<close> is
  \<open>manga_genres(manga_id, genre_id)\<close>); the key-value store maps a key to its text and the
  second at which it expires, if any. Each store has a list of outcomes for the commands
  still to come. For the relational store an outcome is \<open>None\<close> (the statement runs) or
  the text of the driver's error (a lost connection, a violated constraint of the schema:
  the tables here carry no constraints of their own); for the other two \<open>True\<close> makes the
  command fail with a network error. An exhausted list means no further failure.
\<close>

record world =
  clock :: int
  mangaTbl :: "Manga list"
  mangaSeq :: int
  genresTbl :: "(int \<times> string) list"
  genresSeq :: int
  mangaGenresTbl :: "(int \<times> int) list"
  chapterTbl :: "Chapter list"
  userTbl :: "User list"
  userSeq :: int
  pgFaults :: "string option list"
  redisKV :: "string \<rightharpoonup> cached \<times> int option"
  redisFaults :: "bool list"
  mangaViews :: "int \<Rightarrow> int"
  chapterViews :: "int \<Rightarrow> int"
  analyticsFaults :: "bool list"
  trace :: "event list"

definition emit :: "event \<Rightarrow> world \<Rightarrow> world" where
  "emit e w = w\<lparr>trace := trace w @ [e]\<rparr>"

definition pg_statement :: "world \<Rightarrow> error option \<times> world" where
  "pg_statement w =
     (case pgFaults w of [] \<Rightarrow> (None, w)
      | f # fs \<Rightarrow> (map_option ErrorString f, w\<lparr>pgFaults := fs\<rparr>))"

definition redis_command :: "world \<Rightarrow> bool \<times> world" where
  "redis_command w =
     (case redisFaults w of [] \<Rightarrow> (False, w) | f # fs \<Rightarrow> (f, w\<lparr>redisFaults := fs\<rparr>))"

definition analytics_command :: "world \<Rightarrow> bool \<times> world" where
  "analytics_command w =
     (case analyticsFaults w of [] \<Rightarrow> (False, w)
      | f # fs \<Rightarrow> (f, w\<lparr>analyticsFaults := fs\<rparr>))"

definition redis_error :: error where
  "redis_error = ErrorString ''dial tcp: connection refused''"

section \<open>The key-value client and the cache repository\<close>

definition live :: "int \<Rightarrow> int option \<Rightarrow> bool" where
  "live now expiry = (case expiry of None \<Rightarrow> True | Some t \<Rightarrow> now < t)"

definition RedisClient_Get :: "string \<Rightarrow> world \<Rightarrow> (error + cached) \<times> world" where
  "RedisClient_Get key w =
     (let (failed, w1) = redis_command w in
      if failed then (Inl redis_error, w1)
      else case redisKV w1 key of
             None \<Rightarrow> (Inl RedisNil, w1)
           | Some (v, expiry) \<Rightarrow>
               if live (clock w1) expiry then (Inr v, w1) else (Inl RedisNil, w1))"

definition RedisClient_Set :: "string \<Rightarrow> cached \<Rightarrow> int \<Rightarrow> world \<Rightarrow> error option \<times> world" where
  "RedisClient_Set key v expiration w =
     (let (failed, w1) = redis_command w in
      if failed then (Some redis_error, w1)
      else (None, w1\<lparr>redisKV := (redisKV w1)
              (key \<mapsto> (v, if expiration > 0 then Some (clock w1 + expiration) else None))\<rparr>))"

definition RedisClient_Delete :: "string list \<Rightarrow> world \<Rightarrow> error option \<times> world" where
  "RedisClient_Delete keys w =
     (let (failed, w1) = redis_command w in
      if failed then (Some redis_error, w1)
      else (None, w1\<lparr>redisKV := (\<lambda>k. if k \<in> set keys then None else redisKV w1 k)\<rparr>))"

definition CacheRepository_Get :: "string \<Rightarrow> world \<Rightarrow> (error + cached) \<times> world" where
  "CacheRepository_Get key w =
     (case RedisClient_Get key (emit (CacheGet key) w) of
        (Inl err, w1) \<Rightarrow>
          (Inl err, if Error err \<noteq> ''redis: nil'' then emit (LogError ''redis get'') w1 else w1)
      | (Inr v, w1) \<Rightarrow> (Inr v, w1))"

definition CacheRepository_Set :: "string \<Rightarrow> cached \<Rightarrow> int \<Rightarrow> world \<Rightarrow> error option \<times> world" where
  "CacheRepository_Set key v expiration w =
     (case RedisClient_Set key v expiration (emit (CacheSet key) w) of
        (Some err, w1) \<Rightarrow> (Some err, emit (LogError ''redis set'') w1)
      | (None, w1) \<Rightarrow> (None, w1))"

definition CacheRepository_Delete :: "string \<Rightarrow> world \<Rightarrow> error option \<times> world" where
  "CacheRepository_Delete key w =
     (case RedisClient_Delete [key] (emit (CacheDelete key) w) of
        (Some err, w1) \<Rightarrow> (Some err, emit (LogError ''redis delete'') w1)
      | (None, w1) \<Rightarrow> (None, w1))"

section \<open>The manga repository\<close>

definition GetGenresForManga :: "int \<Rightarrow> world \<Rightarrow> (error + string list) \<times> world" where
  "GetGenresForManga mangaID w =
     (case pg_statement w of
        (Some err, w1) \<Rightarrow>
          (Inl (NewDatabaseError ''Oshibka poluchenija zhanrov dlja mangi'' (Some err)),
           emit (LogError ''genres for manga'') w1)
      | (None, w1) \<Rightarrow>
          (Inr (sort (concat (map (\<lambda>(m, g). map snd (filter (\<lambda>(i, n). i = g) (genresTbl w1)))
                            (filter (\<lambda>(m, g). m = mangaID) (mangaGenresTbl w1))))),
           w1))"

text \<open>
  When the genre is not there the lookup reports \<open>sql.ErrNoRows\<close>, and that is the case
  in which the source gives up with a database error; any other error of the lookup goes on
  to the insertion.
\<close>

definition getOrCreateGenre :: "string \<Rightarrow> world \<Rightarrow> (error + int) \<times> world" where
  "getOrCreateGenre genre w =
     (case pg_statement w of
        (None, w1) \<Rightarrow>
          (case find (\<lambda>(i, n). n = genre) (genresTbl w1) of
             Some (i, n) \<Rightarrow> (Inr i, w1)
           | None \<Rightarrow>
               (Inl (NewDatabaseError ''Oshibka proverki sushhestvovanija zhanra''
                       (Some (ErrorString ''sql: no rows in result set''))),
                emit (LogError ''genre exists'') w1))
      | (Some err, w1) \<Rightarrow>
          (case pg_statement w1 of
             (Some err2, w2) \<Rightarrow>
               (Inl (NewDatabaseError ''Oshibka sozdanija zhanra'' (Some err2)),
                emit (LogError ''genre create'') w2)
           | (None, w2) \<Rightarrow>
               (Inr (genresSeq w2),
                w2\<lparr>genresTbl := genresTbl w2 @ [(genresSeq w2, genre)],
                   genresSeq := genresSeq w2 + 1\<rparr>)))"

definition AddGenreToManga :: "int \<Rightarrow> string \<Rightarrow> world \<Rightarrow> error option \<times> world" where
  "AddGenreToManga mangaID genre w =
     (case getOrCreateGenre genre w of
        (Inl err, w1) \<Rightarrow> (Some err, w1)
      | (Inr genreID, w1) \<Rightarrow>
          (case pg_statement w1 of
             (Some err, w2) \<Rightarrow>
               (Some (NewDatabaseError ''Oshibka dobavlenija zhanra k mange'' (Some err)),
                emit (LogError ''genre add'') w2)
           | (None, w2) \<Rightarrow>
               (None,
                if (mangaID, genreID) \<in> set (mangaGenresTbl w2) then w2
                else w2\<lparr>mangaGenresTbl := mangaGenresTbl w2 @ [(mangaID, genreID)]\<rparr>)))"

definition RemoveGenreFromManga :: "int \<Rightarrow> string \<Rightarrow> world \<Rightarrow> error option \<times> world" where
  "RemoveGenreFromManga mangaID genre w =
     (case pg_statement w of
        (Some err, w1) \<Rightarrow>
          (Some (NewDatabaseError ''Oshibka poluchenija ID zhanra'' (Some err)),
           emit (LogError ''genre id'') w1)
      | (None, w1) \<Rightarrow>
          (case find (\<lambda>(i, n). n = genre) (genresTbl w1) of
             None \<Rightarrow> (None, w1)
           | Some (genreID, n) \<Rightarrow>
               (case pg_statement w1 of
                  (Some err, w2) \<Rightarrow>
                    (Some (NewDatabaseError ''Oshibka udalenija zhanra u mangi'' (Some err)),
                     emit (LogError ''genre remove'') w2)
                | (None, w2) \<Rightarrow>
                    (None,
                     w2\<lparr>mangaGenresTbl :=
                          filter (\<lambda>l. l \<noteq> (mangaID, genreID)) (mangaGenresTbl w2)\<rparr>))))"

text \<open>A loop that adds (or removes) each genre in turn and logs the ones that fail.\<close>

definition each_genre ::
  "(int \<Rightarrow> string \<Rightarrow> world \<Rightarrow> error option \<times> world) \<Rightarrow> string \<Rightarrow> int \<Rightarrow> string list
     \<Rightarrow> world \<Rightarrow> world" where
  "each_genre step tag mangaID genres w =
     fold (\<lambda>genre w'. case step mangaID genre w' of
                          (Some err, w1) \<Rightarrow> emit (LogError tag) w1
                        | (None, w1) \<Rightarrow> w1) genres w"

definition mangaRepo_Create :: "Manga \<Rightarrow> world \<Rightarrow> (error + int) \<times> world" where
  "mangaRepo_Create manga w =
     (case pg_statement (emit MangaRepoCreate w) of
        (Some err, w1) \<Rightarrow>
          (Inl (NewDatabaseError ''Oshibka sozdanija mangi'' (Some err)),
           emit (LogError ''manga create'') w1)
      | (None, w1) \<Rightarrow>
          (let ident = mangaSeq w1;
               row = manga\<lparr>Manga_ID := ident, Manga_Genres := [],
                           Manga_CreatedAt := clock w1, Manga_UpdatedAt := clock w1\<rparr>;
               w2 = w1\<lparr>mangaTbl := mangaTbl w1 @ [row], mangaSeq := ident + 1\<rparr>
           in (Inr ident, each_genre AddGenreToManga ''manga create genre'' ident
                            (Manga_Genres manga) w2)))"

definition mangaRepo_GetByID :: "int \<Rightarrow> world \<Rightarrow> (error + Manga) \<times> world" where
  "mangaRepo_GetByID ident w =
     (case pg_statement (emit (MangaRepoGetByID ident) w) of
        (Some err, w1) \<Rightarrow>
          (Inl (NewDatabaseError ''Oshibka poluchenija mangi'' (Some err)),
           emit (LogError ''manga get'') w1)
      | (None, w1) \<Rightarrow>
          (case find (\<lambda>m. Manga_ID m = ident) (mangaTbl w1) of
             None \<Rightarrow> (Inl (NewMangaNotFoundError ident), w1)
           | Some row \<Rightarrow>
               (case GetGenresForManga ident w1 of
                  (Inl err, w2) \<Rightarrow>
                    (Inr (row\<lparr>Manga_Genres := []\<rparr>), emit (LogError ''manga get genres'') w2)
                | (Inr genres, w2) \<Rightarrow> (Inr (row\<lparr>Manga_Genres := genres\<rparr>), w2))))"

subsection \<open>Listing\<close>

text \<open>
  The pattern language of \<open>ILIKE\<close> on ASCII text: \<open>%\<close> stands for any run of
  characters, \<open>_\<close> for any one character, a backslash takes the next character literally,
  and letters match without regard to case.
\<close>

definition to_lower :: "char \<Rightarrow> char" where
  "to_lower c =
     (case map_of (zip ''ABCDEFGHIJKLMNOPQRSTUVWXYZ'' ''abcdefghijklmnopqrstuvwxyz'') c of
        Some l \<Rightarrow> l | None \<Rightarrow> c)"

fun like :: "string \<Rightarrow> string \<Rightarrow> bool" where
  "like [] s = (s = [])"
| "like (p # ps) s =
     (if p = CHR ''%'' then
        (like ps s \<or> (case s of [] \<Rightarrow> False | c # cs \<Rightarrow> like (p # ps) cs))
      else if p = CHR ''_'' then (case s of [] \<Rightarrow> False | c # cs \<Rightarrow> like ps cs)
      else if p = CHR 0x5C \<and> ps \<noteq> [] then
        (case s of [] \<Rightarrow> False | c # cs \<Rightarrow> c = hd ps \<and> like (tl ps) cs)
      else (case s of [] \<Rightarrow> False | c # cs \<Rightarrow> c = p \<and> like ps cs))"

definition ilike :: "string \<Rightarrow> string \<Rightarrow> bool" where
  "ilike s pattern = like (map to_lower pattern) (map to_lower s)"

text \<open>
  The rows the listing statement selects: the conditions on title and status, the newest
  update first (rows updated in the same second stay in table order), and the window when
  a positive limit is given.
\<close>

definition select_manga :: "MangaFilter \<Rightarrow> Manga list \<Rightarrow> Manga list" where
  "select_manga f tbl =
     (let rows = filter (\<lambda>m. (Filter_Title f = [] \<or> ilike (Manga_Title m) (''%'' @ Filter_Title f @ ''%''))
                            \<and> (Filter_Status f = [] \<or> Manga_Status m = Filter_Status f)) tbl;
          ordered = sort_key (\<lambda>m. - Manga_UpdatedAt m) rows
      in if Filter_Limit f > 0
         then take (nat (Filter_Limit f)) (drop (nat (Filter_Offset f)) ordered)
         else ordered)"

definition with_genres :: "Manga list \<Rightarrow> world \<Rightarrow> Manga list \<times> world" where
  "with_genres rows w =
     fold (\<lambda>row (acc, w').
             case GetGenresForManga (Manga_ID row) w' of
               (Inl err, w1) \<Rightarrow>
                 (acc @ [row\<lparr>Manga_Genres := []\<rparr>], emit (LogError ''manga list genres'') w1)
             | (Inr genres, w1) \<Rightarrow> (acc @ [row\<lparr>Manga_Genres := genres\<rparr>], w1))
          rows ([], w)"

text \<open>
  With a genre filter the source puts \<open>GROUP BY\<close> in front of \<open>WHERE\<close>, which the
  store rejects as a syntax error; it also rejects a negative offset.
\<close>

definition mangaRepo_List :: "MangaFilter \<Rightarrow> world \<Rightarrow> (error + Manga list) \<times> world" where
  "mangaRepo_List f w =
     (case pg_statement (emit MangaRepoList w) of
        (Some err, w1) \<Rightarrow>
          (Inl (NewDatabaseError ''Oshibka poluchenija spiska mangi'' (Some err)),
           emit (LogError ''manga list'') w1)
      | (None, w1) \<Rightarrow>
          if Filter_Genres f \<noteq> [] then
            (Inl (NewDatabaseError ''Oshibka poluchenija spiska mangi''
                    (Some (ErrorString ''pq: syntax error at or near WHERE''))),
             emit (LogError ''manga list'') w1)
          else if Filter_Limit f > 0 \<and> Filter_Offset f < 0 then
            (Inl (NewDatabaseError ''Oshibka poluchenija spiska mangi''
                    (Some (ErrorString ''pq: OFFSET must not be negative''))),
             emit (LogError ''manga list'') w1)
          else (case with_genres (select_manga f (mangaTbl w1)) w1 of
                  (mangas, w2) \<Rightarrow> (Inr mangas, w2)))"

subsection \<open>Updating and deleting\<close>

definition mangaRepo_Update :: "Manga \<Rightarrow> world \<Rightarrow> error option \<times> world" where
  "mangaRepo_Update manga w =
     (case pg_statement (emit (MangaRepoUpdate (Manga_ID manga)) w) of
        (Some err, w1) \<Rightarrow>
          (Some (NewDatabaseError ''Oshibka obnovlenija mangi'' (Some err)),
           emit (LogError ''manga update'') w1)
      | (None, w1) \<Rightarrow>
          if find (\<lambda>m. Manga_ID m = Manga_ID manga) (mangaTbl w1) = None
          then (Some (NewMangaNotFoundError (Manga_ID manga)), w1)
          else
            (let w2 = w1\<lparr>mangaTbl :=
                         map (\<lambda>r. if Manga_ID r = Manga_ID manga
                                  then r\<lparr>Manga_Title := Manga_Title manga,
                                         Manga_Description := Manga_Description manga,
                                         Manga_CoverImage := Manga_CoverImage manga,
                                         Manga_Status := Manga_Status manga,
                                         Manga_Author := Manga_Author manga,
                                         Manga_Artist := Manga_Artist manga,
                                         Manga_UpdatedAt := clock w1\<rparr>
                                  else r) (mangaTbl w1)\<rparr>;
                 (currentGenres, w3) =
                   (case GetGenresForManga (Manga_ID manga) w2 of
                      (Inl err, w') \<Rightarrow> ([], emit (LogError ''manga update genres'') w')
                    | (Inr genres, w') \<Rightarrow> (genres, w'));
                 genresToAdd = filter (\<lambda>g. g \<notin> set currentGenres) (Manga_Genres manga);
                 genresToRemove = filter (\<lambda>g. g \<notin> set (Manga_Genres manga)) currentGenres;
                 w4 = each_genre AddGenreToManga ''manga update add genre'' (Manga_ID manga)
                        genresToAdd w3;
                 w5 = each_genre RemoveGenreFromManga ''manga update remove genre''
                        (Manga_ID manga) genresToRemove w4
             in (None, w5)))"

text \<open>Deleting a manga takes its genre links and its chapters with it (\<open>ON DELETE CASCADE\<close>).\<close>

definition mangaRepo_Delete :: "int \<Rightarrow> world \<Rightarrow> error option \<times> world" where
  "mangaRepo_Delete ident w =
     (case pg_statement (emit (MangaRepoDelete ident) w) of
        (Some err, w1) \<Rightarrow>
          (Some (NewDatabaseError ''Oshibka udalenija mangi'' (Some err)),
           emit (LogError ''manga delete'') w1)
      | (None, w1) \<Rightarrow>
          if find (\<lambda>m. Manga_ID m = ident) (mangaTbl w1) = None
          then (Some (NewMangaNotFoundError ident), w1)
          else (None, w1\<lparr>mangaTbl := filter (\<lambda>m. Manga_ID m \<noteq> ident) (mangaTbl w1),
                          mangaGenresTbl := filter (\<lambda>(m, g). m \<noteq> ident) (mangaGenresTbl w1),
                          chapterTbl :=
                            filter (\<lambda>c. Chapter_MangaID c \<noteq> ident) (chapterTbl w1)\<rparr>))"

section \<open>The chapter repository\<close>

definition chapterRepo_GetByID :: "int \<Rightarrow> world \<Rightarrow> (error + Chapter) \<times> world" where
  "chapterRepo_GetByID ident w =
     (case pg_statement (emit (ChapterRepoGetByID ident) w) of
        (Some err, w1) \<Rightarrow>
          (Inl (NewDatabaseError ''Oshibka poluchenija glavy'' (Some err)),
           emit (LogError ''chapter get'') w1)
      | (None, w1) \<Rightarrow>
          (case find (\<lambda>c. Chapter_ID c = ident) (chapterTbl w1) of
             None \<Rightarrow> (Inl (NewChapterNotFoundError ident), w1)
           | Some row \<Rightarrow> (Inr row, w1)))"

section \<open>The analytics repository\<close>

text \<open>
  Modelled from the spec: the implementation of \<open>AnalyticsRepository\<close> is not among the
  sources, only its interface and its callers are. Recording a view adds one to the score of
  the subject, reading the views returns that score, and either may fail; the ranking sets
  for the several periods are independent copies of the same count and are kept as one.
\<close>

definition RecordMangaView_repo :: "int \<Rightarrow> world \<Rightarrow> error option \<times> world" where
  "RecordMangaView_repo mangaID w =
     (let (failed, w1) = analytics_command (emit (RecordMangaView mangaID) w) in
      if failed then (Some redis_error, w1)
      else (None, w1\<lparr>mangaViews := (mangaViews w1)(mangaID := mangaViews w1 mangaID + 1)\<rparr>))"

definition GetChapterViews_repo :: "int \<Rightarrow> world \<Rightarrow> (error + int) \<times> world" where
  "GetChapterViews_repo chapterID w =
     (let (failed, w1) = analytics_command (emit (GetChapterViews chapterID) w) in
      if failed then (Inl redis_error, w1) else (Inr (chapterViews w1 chapterID), w1))"

definition RecordChapterView_repo :: "int \<Rightarrow> int \<Rightarrow> world \<Rightarrow> error option \<times> world" where
  "RecordChapterView_repo chapterID mangaID w =
     (let (failed, w1) = analytics_command (emit (RecordChapterView chapterID mangaID) w) in
      if failed then (Some redis_error, w1)
      else (None, w1\<lparr>chapterViews :=
                        (chapterViews w1)(chapterID := chapterViews w1 chapterID + 1)\<rparr>))"

section \<open>The manga use case\<close>

text \<open>The idiom \<open>if err := f(); err != nil { log.Error(...) }\<close>.\<close>

definition log_if_error :: "string \<Rightarrow> error option \<times> world \<Rightarrow> world" where
  "log_if_error tag r = (case r of (Some err, w) \<Rightarrow> emit (LogError tag) w | (None, w) \<Rightarrow> w)"

definition mangaKey :: "int \<Rightarrow> string" where
  "mangaKey ident = ''manga:'' @ fmt_d ident"

definition mangaListKey :: "int \<Rightarrow> int \<Rightarrow> string" where
  "mangaListKey limit offset = ''manga:list:'' @ fmt_d limit @ '':'' @ fmt_d offset"

definition invalidateMangaListCache :: "world \<Rightarrow> error option \<times> world" where
  "invalidateMangaListCache w = CacheRepository_Delete ''manga:list:*'' w"

text \<open>
  The part of \<open>GetByID\<close> after the cache was of no use: load from the repository, record
  the view, write the cache (thirty minutes), return what was loaded.
\<close>

definition mangaUseCase_load :: "int \<Rightarrow> world \<Rightarrow> (error + Manga) \<times> world" where
  "mangaUseCase_load ident w =
     (case mangaRepo_GetByID ident w of
        (Inl err, w1) \<Rightarrow> (Inl err, w1)
      | (Inr manga, w1) \<Rightarrow>
          (let w2 = log_if_error ''record manga view'' (RecordMangaView_repo ident w1);
               w3 = log_if_error ''cache manga''
                      (CacheRepository_Set (mangaKey ident) (JsonManga manga) 1800 w2)
           in (Inr manga, w3)))"

definition mangaUseCase_GetByID :: "int \<Rightarrow> world \<Rightarrow> (error + Manga) \<times> world" where
  "mangaUseCase_GetByID ident w =
     (case CacheRepository_Get (mangaKey ident) w of
        (Inr cachedData, w1) \<Rightarrow>
          if cachedData \<noteq> Empty then
            (case Unmarshal_Manga cachedData of
               Inr manga \<Rightarrow>
                 (Inr manga, log_if_error ''record manga view'' (RecordMangaView_repo ident w1))
             | Inl err \<Rightarrow> mangaUseCase_load ident (emit (LogError ''decode manga'') w1))
          else mangaUseCase_load ident w1
      | (Inl err, w1) \<Rightarrow> mangaUseCase_load ident w1)"

definition unfiltered :: "MangaFilter \<Rightarrow> bool" where
  "unfiltered f = (Filter_Title f = [] \<and> Filter_Status f = [] \<and> length (Filter_Genres f) = 0)"

definition mangaUseCase_listLoad :: "MangaFilter \<Rightarrow> world \<Rightarrow> (error + Manga list) \<times> world" where
  "mangaUseCase_listLoad f w =
     (case mangaRepo_List f w of
        (Inl err, w1) \<Rightarrow> (Inl err, w1)
      | (Inr mangas, w1) \<Rightarrow>
          if unfiltered f then
            (Inr mangas,
             log_if_error ''cache manga list''
               (CacheRepository_Set (mangaListKey (Filter_Limit f) (Filter_Offset f))
                  (JsonMangaList mangas) 600 w1))
          else (Inr mangas, w1))"

definition mangaUseCase_List :: "MangaFilter \<Rightarrow> world \<Rightarrow> (error + Manga list) \<times> world" where
  "mangaUseCase_List f w =
     (if unfiltered f then
        (case CacheRepository_Get (mangaListKey (Filter_Limit f) (Filter_Offset f)) w of
           (Inr cachedData, w1) \<Rightarrow>
             if cachedData \<noteq> Empty then
               (case Unmarshal_MangaList cachedData of
                  Inr mangas \<Rightarrow> (Inr mangas, w1)
                | Inl err \<Rightarrow> mangaUseCase_listLoad f (emit (LogError ''decode manga list'') w1))
             else mangaUseCase_listLoad f w1
         | (Inl err, w1) \<Rightarrow> mangaUseCase_listLoad f w1)
      else mangaUseCase_listLoad f w)"

definition mangaUseCase_Create :: "Manga \<Rightarrow> world \<Rightarrow> (error + Manga) \<times> world" where
  "mangaUseCase_Create manga w =
     (if Manga_Title manga = [] then
        (Inl (NewValidationError ''Nazvanie mangi ne mozhet byt' pustym''), w)
      else (case mangaRepo_Create manga w of
              (Inl err, w1) \<Rightarrow> (Inl err, w1)
            | (Inr ident, w1) \<Rightarrow>
                (case mangaRepo_GetByID ident w1 of
                   (Inl err, w2) \<Rightarrow> (Inl err, w2)
                 | (Inr createdManga, w2) \<Rightarrow>
                     (Inr createdManga,
                      log_if_error ''invalidate manga list'' (invalidateMangaListCache w2)))))"

definition mangaUseCase_Update :: "Manga \<Rightarrow> world \<Rightarrow> (error + Manga) \<times> world" where
  "mangaUseCase_Update manga w =
     (case mangaRepo_GetByID (Manga_ID manga) w of
        (Inl err, w1) \<Rightarrow> (Inl err, w1)
      | (Inr existing, w1) \<Rightarrow>
          if Manga_Title manga = [] then
            (Inl (NewValidationError ''Nazvanie mangi ne mozhet byt' pustym''), w1)
          else (case mangaRepo_Update manga w1 of
                  (Some err, w2) \<Rightarrow> (Inl err, w2)
                | (None, w2) \<Rightarrow>
                    (case mangaRepo_GetByID (Manga_ID manga) w2 of
                       (Inl err, w3) \<Rightarrow> (Inl err, w3)
                     | (Inr updatedManga, w3) \<Rightarrow>
                         (let w4 = log_if_error ''invalidate manga''
                                     (CacheRepository_Delete (mangaKey (Manga_ID manga)) w3);
                              w5 = log_if_error ''invalidate manga list''
                                     (invalidateMangaListCache w4)
                          in (Inr updatedManga, w5)))))"

definition mangaUseCase_Delete :: "int \<Rightarrow> world \<Rightarrow> error option \<times> world" where
  "mangaUseCase_Delete ident w =
     (case mangaRepo_GetByID ident w of
        (Inl err, w1) \<Rightarrow> (Some err, w1)
      | (Inr existing, w1) \<Rightarrow>
          (case mangaRepo_Delete ident w1 of
             (Some err, w2) \<Rightarrow> (Some err, w2)
           | (None, w2) \<Rightarrow>
               (let w3 = log_if_error ''invalidate manga''
                           (CacheRepository_Delete (mangaKey ident) w2);
                    w4 = log_if_error ''invalidate manga list'' (invalidateMangaListCache w3)
                in (None, w4))))"

section \<open>The chapter use case\<close>

definition chapterKey :: "int \<Rightarrow> string" where
  "chapterKey ident = ''chapter:'' @ fmt_d ident"

text \<open>
  What both exits of \<open>GetByID\<close> do once they hold the chapter: read the views (zero if
  that fails) and record this view.
\<close>

definition chapterUseCase_views :: "int \<Rightarrow> Chapter \<Rightarrow> world \<Rightarrow> int \<times> world" where
  "chapterUseCase_views ident chapter w =
     (let (views, w1) =
            (case GetChapterViews_repo ident w of
               (Inl err, w') \<Rightarrow> (0, emit (LogError ''chapter views'') w')
             | (Inr v, w') \<Rightarrow> (v, w'));
          w2 = log_if_error ''record chapter view''
                 (RecordChapterView_repo ident (Chapter_MangaID chapter) w1)
      in (views, w2))"

definition chapterUseCase_load :: "int \<Rightarrow> world \<Rightarrow> (error + ChapterWithStats) \<times> world" where
  "chapterUseCase_load ident w =
     (case chapterRepo_GetByID ident w of
        (Inl err, w1) \<Rightarrow> (Inl err, w1)
      | (Inr chapter, w1) \<Rightarrow>
          (let (views, w2) = chapterUseCase_views ident chapter w1;
               w3 = log_if_error ''cache chapter''
                      (CacheRepository_Set (chapterKey ident) (JsonChapter chapter) 1800 w2)
           in (Inr \<lparr>Stats_Chapter = chapter, Stats_Views = views\<rparr>, w3)))"

definition chapterUseCase_GetByID :: "int \<Rightarrow> world \<Rightarrow> (error + ChapterWithStats) \<times> world" where
  "chapterUseCase_GetByID ident w =
     (case CacheRepository_Get (chapterKey ident) w of
        (Inr cachedData, w1) \<Rightarrow>
          if cachedData \<noteq> Empty then
            (case Unmarshal_Chapter cachedData of
               Inr chapter \<Rightarrow>
                 (let (views, w2) = chapterUseCase_views ident chapter w1
                  in (Inr \<lparr>Stats_Chapter = chapter, Stats_Views = views\<rparr>, w2))
             | Inl err \<Rightarrow> chapterUseCase_load ident (emit (LogError ''decode chapter'') w1))
          else chapterUseCase_load ident w1
      | (Inl err, w1) \<Rightarrow> chapterUseCase_load ident w1)"

section \<open>The token service\<close>

text \<open>
  The token library is outside the repository; it is modelled symbolically. The signing
  methods are the ones the library registers. A signature is either the MAC that a method
  makes with a key over the header and claims of the token that carries it, or some other
  bytes; two MACs are equal only if method and key are (the key being the secret as HMAC
  uses it). A token text is the compact form of a method, a claim set and a signature, or a
  text whose header names no registered method, or a text that does not parse at all.
\<close>

datatype SigningMethod =
    HS256 | HS384 | HS512 | RS256 | RS384 | RS512 | PS256 | PS384 | PS512
  | ES256 | ES384 | ES512 | EdDSA | AlgNone

fun Alg :: "SigningMethod \<Rightarrow> string" where
  "Alg HS256 = ''HS256''" | "Alg HS384 = ''HS384''" | "Alg HS512 = ''HS512''"
| "Alg RS256 = ''RS256''" | "Alg RS384 = ''RS384''" | "Alg RS512 = ''RS512''"
| "Alg PS256 = ''PS256''" | "Alg PS384 = ''PS384''" | "Alg PS512 = ''PS512''"
| "Alg ES256 = ''ES256''" | "Alg ES384 = ''ES384''" | "Alg ES512 = ''ES512''"
| "Alg EdDSA = ''EdDSA''" | "Alg AlgNone = ''none''"

fun is_SigningMethodHMAC :: "SigningMethod \<Rightarrow> bool" where
  "is_SigningMethodHMAC HS256 = True"
| "is_SigningMethodHMAC HS384 = True"
| "is_SigningMethodHMAC HS512 = True"
| "is_SigningMethodHMAC _ = False"

record Claims =
  Claims_UserID :: int
  Claims_Username :: string
  Claims_Role :: string
  Claims_ExpiresAt :: "int option"
  Claims_IssuedAt :: "int option"
  Claims_NotBefore :: "int option"
  Claims_Subject :: string

datatype signature = MAC SigningMethod string | OtherBytes nat

datatype token_string =
    Compact SigningMethod Claims signature
  | UnregisteredAlg nat
  | Unparsable nat

record Token =
  Token_Claims :: Claims
  Token_Valid :: bool

record TokenPair =
  AccessToken :: token_string
  RefreshToken :: token_string

record JWTService =
  accessSecret :: string
  refreshSecret :: string
  accessExpires :: int
  refreshExpires :: int

definition zero_Claims :: Claims where
  "zero_Claims =
     \<lparr>Claims_UserID = 0, Claims_Username = [], Claims_Role = [], Claims_ExpiresAt = None,
      Claims_IssuedAt = None, Claims_NotBefore = None, Claims_Subject = []\<rparr>"

text \<open>
  \<open>RegisteredClaims.Valid\<close>: a date that is absent passes; the expiry must lie after
  now, the other two not after now. The inner error is that of the last check that failed.
\<close>

definition Claims_Valid :: "int \<Rightarrow> Claims \<Rightarrow> jwt_flag set \<times> string" where
  "Claims_Valid now c =
     (let v1 = (case Claims_ExpiresAt c of
                  None \<Rightarrow> ({}, [])
                | Some exp \<Rightarrow>
                    if now < exp then ({}, [])
                    else ({ValidationErrorExpired},
                          ''token is expired by '' @ fmt_d (now - exp) @ ''s''));
          v2 = (case Claims_IssuedAt c of
                  None \<Rightarrow> v1
                | Some iat \<Rightarrow>
                    if iat \<le> now then v1
                    else (insert ValidationErrorIssuedAt (fst v1), ''token used before issued''));
          v3 = (case Claims_NotBefore c of
                  None \<Rightarrow> v2
                | Some nbf \<Rightarrow>
                    if nbf \<le> now then v2
                    else (insert ValidationErrorNotValidYet (fst v2), ''token is not valid yet''))
      in v3)"

definition Verify :: "SigningMethod \<Rightarrow> signature \<Rightarrow> string \<Rightarrow> bool" where
  "Verify method sig key = (sig = MAC method key)"

text \<open>
  \<open>Parser.ParseWithClaims\<close> of the release that \<open>go.mod\<close> pins (v4.5.1): parse, ask
  the key function, verify the signature and return at once with the signature error alone
  if that fails, and only then validate the claims.
\<close>

definition ParseWithClaims ::
  "int \<Rightarrow> token_string \<Rightarrow> (SigningMethod \<Rightarrow> error + string) \<Rightarrow> Token \<times> error option" where
  "ParseWithClaims now tokenString keyFunc =
     (case tokenString of
        Unparsable n \<Rightarrow>
          (\<lparr>Token_Claims = zero_Claims, Token_Valid = False\<rparr>,
           Some (ValidationError {ValidationErrorMalformed} ''token is malformed''))
      | UnregisteredAlg n \<Rightarrow>
          (\<lparr>Token_Claims = zero_Claims, Token_Valid = False\<rparr>,
           Some (ValidationError {ValidationErrorUnverifiable}
                   ''signing method (alg) is unavailable.''))
      | Compact method claims sig \<Rightarrow>
          (case keyFunc method of
             Inl err \<Rightarrow>
               (\<lparr>Token_Claims = claims, Token_Valid = False\<rparr>,
                Some (ValidationError {ValidationErrorUnverifiable} (Error err)))
           | Inr key \<Rightarrow>
               if \<not> Verify method sig key then
                 (\<lparr>Token_Claims = claims, Token_Valid = False\<rparr>,
                  Some (ValidationError {ValidationErrorSignatureInvalid}
                          ''signature is invalid''))
               else
                 (let vErr = Claims_Valid now claims
                  in if fst vErr = {}
                     then (\<lparr>Token_Claims = claims, Token_Valid = True\<rparr>, None)
                     else (\<lparr>Token_Claims = claims, Token_Valid = False\<rparr>,
                           Some (ValidationError (fst vErr) (snd vErr))))))"

text \<open>\<open>errors.Is(err, jwt.ErrTokenExpired)\<close>: the validation error answers by its flag.\<close>

fun Is_ErrTokenExpired :: "error \<Rightarrow> bool" where
  "Is_ErrTokenExpired (ValidationError flags inner) = (ValidationErrorExpired \<in> flags)"
| "Is_ErrTokenExpired _ = False"

definition token_expired_text :: string where
  "token_expired_text = ''token istek''"

definition GenerateAccessToken :: "JWTService \<Rightarrow> int \<Rightarrow> User \<Rightarrow> error + token_string" where
  "GenerateAccessToken s now user =
     (let expirationTime = now + accessExpires s;
          claims = \<lparr>Claims_UserID = User_ID user, Claims_Username = User_Username user,
                    Claims_Role = User_Role user, Claims_ExpiresAt = Some expirationTime,
                    Claims_IssuedAt = Some now, Claims_NotBefore = Some now,
                    Claims_Subject = fmt_d (User_ID user)\<rparr>
      in Inr (Compact HS256 claims (MAC HS256 (accessSecret s))))"

definition GenerateRefreshToken :: "JWTService \<Rightarrow> int \<Rightarrow> int \<Rightarrow> error + token_string" where
  "GenerateRefreshToken s now userID =
     (let expirationTime = now + refreshExpires s;
          claims = \<lparr>Claims_UserID = userID, Claims_Username = [], Claims_Role = [],
                    Claims_ExpiresAt = Some expirationTime, Claims_IssuedAt = Some now,
                    Claims_NotBefore = Some now, Claims_Subject = fmt_d userID\<rparr>
      in Inr (Compact HS256 claims (MAC HS256 (refreshSecret s))))"

definition GenerateTokenPair :: "JWTService \<Rightarrow> int \<Rightarrow> User \<Rightarrow> error + TokenPair" where
  "GenerateTokenPair s now user =
     (case GenerateAccessToken s now user of
        Inl err \<Rightarrow> Inl (ErrorString (''oshibka sozdanija access token: '' @ Error err))
      | Inr accessToken \<Rightarrow>
          (case GenerateRefreshToken s now (User_ID user) of
             Inl err \<Rightarrow> Inl (ErrorString (''oshibka sozdanija refresh token: '' @ Error err))
           | Inr refreshToken \<Rightarrow>
               Inr \<lparr>AccessToken = accessToken, RefreshToken = refreshToken\<rparr>))"

definition validateToken :: "int \<Rightarrow> token_string \<Rightarrow> string \<Rightarrow> error + Claims" where
  "validateToken now tokenString secret =
     (case ParseWithClaims now tokenString
             (\<lambda>method. if \<not> is_SigningMethodHMAC method
                       then Inl (ErrorString (''neozhidannyj metod podpisi: '' @ Alg method))
                       else Inr secret) of
        (token, Some err) \<Rightarrow>
          if Is_ErrTokenExpired err then Inl (ErrorString token_expired_text) else Inl err
      | (token, None) \<Rightarrow>
          if \<not> Token_Valid token then Inl (ErrorString ''nedejstvitel'nyj token'')
          else Inr (Token_Claims token))"

definition ValidateAccessToken :: "JWTService \<Rightarrow> int \<Rightarrow> token_string \<Rightarrow> error + Claims" where
  "ValidateAccessToken s now tokenString = validateToken now tokenString (accessSecret s)"

definition ValidateRefreshToken :: "JWTService \<Rightarrow> int \<Rightarrow> token_string \<Rightarrow> error + Claims" where
  "ValidateRefreshToken s now tokenString = validateToken now tokenString (refreshSecret s)"

definition RefreshTokens ::
  "JWTService \<Rightarrow> int \<Rightarrow> token_string \<Rightarrow> User \<Rightarrow> error + TokenPair" where
  "RefreshTokens s now refreshToken user =
     (case ValidateRefreshToken s now refreshToken of
        Inl err \<Rightarrow> Inl err
      | Inr claims \<Rightarrow>
          if Claims_UserID claims \<noteq> User_ID user
          then Inl (ErrorString ''user_id ne sootvetstvuet refresh token'')
          else GenerateTokenPair s now user)"

section \<open>The user repository\<close>

text \<open>The two driver messages that the repository looks for, with their double quotes.\<close>

definition duplicate_username_text :: string where
  "duplicate_username_text =
     ''ERROR: duplicate key value violates unique constraint '' @ [CHR 0x22]
       @ ''users_username_key'' @ [CHR 0x22] @ '' (SQLSTATE 23505)''"

definition duplicate_email_text :: string where
  "duplicate_email_text =
     ''ERROR: duplicate key value violates unique constraint '' @ [CHR 0x22]
       @ ''users_email_key'' @ [CHR 0x22] @ '' (SQLSTATE 23505)''"

definition user_write_error :: "string \<Rightarrow> string \<Rightarrow> User \<Rightarrow> error \<Rightarrow> world \<Rightarrow> error \<times> world" where
  "user_write_error msg tag user err w =
     (if Error err = duplicate_username_text then (NewUserExistsError (User_Username user), w)
      else if Error err = duplicate_email_text then
        (NewConflictError ''Pol'zovatel' s takim email uzhe sushhestvuet'' None, w)
      else (NewDatabaseError msg (Some err), emit (LogError tag) w))"

definition userRepo_Create :: "User \<Rightarrow> world \<Rightarrow> (error + int) \<times> world" where
  "userRepo_Create user w =
     (case pg_statement (emit UserRepoCreate w) of
        (Some err, w1) \<Rightarrow>
          (case user_write_error ''Oshibka sozdanija pol'zovatelja'' ''user create'' user err w1 of
             (e, w2) \<Rightarrow> (Inl e, w2))
      | (None, w1) \<Rightarrow>
          (let ident = userSeq w1;
               row = user\<lparr>User_ID := ident, User_CreatedAt := clock w1,
                          User_UpdatedAt := clock w1\<rparr>
           in (Inr ident, w1\<lparr>userTbl := userTbl w1 @ [row], userSeq := ident + 1\<rparr>)))"

definition user_select ::
  "event \<Rightarrow> (User \<Rightarrow> bool) \<Rightarrow> string \<Rightarrow> string \<Rightarrow> world \<Rightarrow> (error + User) \<times> world" where
  "user_select ev cond identifier tag w =
     (case pg_statement (emit ev w) of
        (Some err, w1) \<Rightarrow>
          (Inl (NewDatabaseError ''Oshibka poluchenija pol'zovatelja'' (Some err)),
           emit (LogError tag) w1)
      | (None, w1) \<Rightarrow>
          (case find cond (userTbl w1) of
             None \<Rightarrow> (Inl (NewUserNotFoundError identifier), w1)
           | Some row \<Rightarrow> (Inr row, w1)))"

definition userRepo_GetByID :: "int \<Rightarrow> world \<Rightarrow> (error + User) \<times> world" where
  "userRepo_GetByID ident w =
     user_select (UserRepoGetByID ident) (\<lambda>u. User_ID u = ident) (fmt_d ident) ''user get'' w"

definition userRepo_GetByUsername :: "string \<Rightarrow> world \<Rightarrow> (error + User) \<times> world" where
  "userRepo_GetByUsername username w =
     user_select (UserRepoGetByUsername username) (\<lambda>u. User_Username u = username) username
       ''user get by name'' w"

definition userRepo_GetByEmail :: "string \<Rightarrow> world \<Rightarrow> (error + User) \<times> world" where
  "userRepo_GetByEmail email w =
     user_select (UserRepoGetByEmail email) (\<lambda>u. User_Email u = email) email
       ''user get by email'' w"

definition userRepo_Update :: "User \<Rightarrow> world \<Rightarrow> error option \<times> world" where
  "userRepo_Update user w =
     (case pg_statement (emit (UserRepoUpdate (User_ID user)) w) of
        (Some err, w1) \<Rightarrow>
          (case user_write_error ''Oshibka obnovlenija pol'zovatelja'' ''user update'' user err w1 of
             (e, w2) \<Rightarrow> (Some e, w2))
      | (None, w1) \<Rightarrow>
          if find (\<lambda>u. User_ID u = User_ID user) (userTbl w1) = None
          then (Some (NewUserNotFoundError (fmt_d (User_ID user))), w1)
          else (None,
                w1\<lparr>userTbl :=
                     map (\<lambda>r. if User_ID r = User_ID user
                              then r\<lparr>User_Username := User_Username user,
                                     User_Email := User_Email user,
                                     User_Password := User_Password user,
                                     User_Role := User_Role user,
                                     User_UpdatedAt := clock w1\<rparr>
                              else r) (userTbl w1)\<rparr>))"

section \<open>The user use case\<close>

subsection \<open>Text helpers\<close>

fun HasPrefix :: "string \<Rightarrow> string \<Rightarrow> bool" where
  "HasPrefix s [] = True"
| "HasPrefix [] (p # ps) = False"
| "HasPrefix (c # cs) (p # ps) = (c = p \<and> HasPrefix cs ps)"

fun Contains :: "string \<Rightarrow> string \<Rightarrow> bool" where
  "Contains [] substr = (substr = [])"
| "Contains (c # cs) substr = (HasPrefix (c # cs) substr \<or> Contains cs substr)"

definition letter :: "char \<Rightarrow> bool" where
  "letter c = (c \<in> set ''abcdefghijklmnopqrstuvwxyzABCDEFGHIJKLMNOPQRSTUVWXYZ'')"

definition digit :: "char \<Rightarrow> bool" where
  "digit c = (c \<in> set ''0123456789'')"

text \<open>The pattern \<open>^[a-zA-Z0-9_]+$\<close>.\<close>

definition username_ok :: "string \<Rightarrow> bool" where
  "username_ok s = (s \<noteq> [] \<and> list_all (\<lambda>c. letter c \<or> digit c \<or> c = CHR ''_'') s)"

text \<open>
  The pattern \<open>^[a-zA-Z0-9._%+\-]+@[a-zA-Z0-9.\-]+\.[a-zA-Z]{2,}$\<close>. The first class has
  no \<open>@\<close>, so the local part ends at the first one; the last class has no dot, so the
  final label starts after the last one.
\<close>

definition email_ok :: "string \<Rightarrow> bool" where
  "email_ok s =
     (let local = takeWhile (\<lambda>c. c \<noteq> CHR ''@'') s;
          rest = drop 1 (dropWhile (\<lambda>c. c \<noteq> CHR ''@'') s);
          label = rev (takeWhile (\<lambda>c. c \<noteq> CHR ''.'') (rev rest));
          front = rev (dropWhile (\<lambda>c. c \<noteq> CHR ''.'') (rev rest));
          domain = butlast front
      in local \<noteq> [] \<and> list_all (\<lambda>c. letter c \<or> digit c \<or> c \<in> set ''._%+-'') local
         \<and> dropWhile (\<lambda>c. c \<noteq> CHR ''@'') s \<noteq> []
         \<and> front \<noteq> [] \<and> domain \<noteq> []
         \<and> list_all (\<lambda>c. letter c \<or> digit c \<or> c \<in> set ''.-'') domain
         \<and> 2 \<le> length label \<and> list_all letter label)"

text \<open>
  The password hash of the \<open>bcrypt\<close> package is symbolic: the salted digest of a password
  is the password behind the prefix of the scheme. Longer passwords than 72 bytes are
  refused.
\<close>

definition GenerateFromPassword :: "string \<Rightarrow> error + string" where
  "GenerateFromPassword password =
     (if length password > 72
      then Inl (ErrorString ''bcrypt: password length exceeds 72 bytes'')
      else Inr (''$2a$10$'' @ password))"

fun As_AppError :: "error \<Rightarrow> bool" where
  "As_AppError (AppError c m s e) = True"
| "As_AppError _ = False"

subsection \<open>Operations\<close>

definition register_store :: "UserRegistration \<Rightarrow> world \<Rightarrow> (error + User) \<times> world" where
  "register_store reg w =
     (case GenerateFromPassword (Reg_Password reg) of
        Inl err \<Rightarrow>
          (Inl (NewInternalError ''Oshibka heshirovanija parolja'' (Some err)),
           emit (LogError ''hash password'') w)
      | Inr hashedPassword \<Rightarrow>
          (let user = \<lparr>User_ID = 0, User_Username = Reg_Username reg,
                        User_Email = Reg_Email reg, User_Password = hashedPassword,
                        User_Role = ''user'', User_CreatedAt = 0, User_UpdatedAt = 0\<rparr>
           in case userRepo_Create user w of
                (Inl err, w1) \<Rightarrow> (Inl err, w1)
              | (Inr ident, w1) \<Rightarrow>
                  (case userRepo_GetByID ident w1 of
                     (Inl err, w2) \<Rightarrow> (Inl err, w2)
                   | (Inr createdUser, w2) \<Rightarrow>
                       (Inr (createdUser\<lparr>User_Password := []\<rparr>), w2))))"

definition userUseCase_Register :: "UserRegistration \<Rightarrow> world \<Rightarrow> (error + User) \<times> world" where
  "userUseCase_Register reg w =
     (if Reg_Username reg = [] then
        (Inl (NewValidationError ''Imja pol'zovatelja ne mozhet byt' pustym''), w)
      else if Reg_Email reg = [] then
        (Inl (NewValidationError ''Email ne mozhet byt' pustym''), w)
      else if Reg_Password reg = [] then
        (Inl (NewValidationError ''Parol' ne mozhet byt' pustym''), w)
      else if \<not> username_ok (Reg_Username reg) then
        (Inl (NewValidationError
                ''Imja pol'zovatelja mozhet soderzhat' tol'ko bukvy, cifry i simvol podcherkivanija''), w)
      else if \<not> email_ok (Reg_Email reg) then
        (Inl (NewValidationError ''Nekorrektnyj email''), w)
      else if length (Reg_Password reg) < 6 then
        (Inl (NewValidationError ''Parol' dolzhen soderzhat' minimum 6 simvolov''), w)
      else
        (case userRepo_GetByUsername (Reg_Username reg) w of
           (Inr existing, w1) \<Rightarrow> (Inl (NewUserExistsError (Reg_Username reg)), w1)
         | (Inl err, w1) \<Rightarrow>
             if \<not> As_AppError err then (Inl err, w1)
             else
               (case userRepo_GetByEmail (Reg_Email reg) w1 of
                  (Inr existing, w2) \<Rightarrow>
                    (Inl (NewConflictError ''Pol'zovatel' s takim email uzhe sushhestvuet'' None),
                     w2)
                | (Inl err2, w2) \<Rightarrow>
                    if \<not> As_AppError err2 then (Inl err2, w2) else register_store reg w2)))"

definition userUseCase_RefreshToken ::
  "JWTService \<Rightarrow> token_string \<Rightarrow> world \<Rightarrow> (error + TokenPair) \<times> world" where
  "userUseCase_RefreshToken s refreshToken w =
     (case ValidateRefreshToken s (clock w) refreshToken of
        Inl err \<Rightarrow>
          if Contains (Error err) token_expired_text then (Inl NewJWTExpiredError, w)
          else (Inl (NewJWTInvalidError err), w)
      | Inr claims \<Rightarrow>
          (case userRepo_GetByID (Claims_UserID claims) w of
             (Inl err, w1) \<Rightarrow> (Inl err, w1)
           | (Inr user, w1) \<Rightarrow>
               (case GenerateTokenPair s (clock w1) user of
                  Inl err \<Rightarrow>
                    (Inl (NewInternalError ''Oshibka generacii tokena'' (Some err)),
                     emit (LogError ''generate token'') w1)
                | Inr tokenPair \<Rightarrow> (Inr tokenPair, w1))))"

definition userUseCase_GetProfile :: "int \<Rightarrow> world \<Rightarrow> (error + User) \<times> world" where
  "userUseCase_GetProfile userID w =
     (case userRepo_GetByID userID w of
        (Inl err, w1) \<Rightarrow> (Inl err, w1)
      | (Inr user, w1) \<Rightarrow> (Inr (user\<lparr>User_Password := []\<rparr>), w1))"

definition userUseCase_UpdateProfile :: "User \<Rightarrow> world \<Rightarrow> (error + User) \<times> world" where
  "userUseCase_UpdateProfile user w =
     (case userRepo_GetByID (User_ID user) w of
        (Inl err, w1) \<Rightarrow> (Inl err, w1)
      | (Inr fetched, w1) \<Rightarrow>
          (let currentUser = fetched\<lparr>User_Username := User_Username user,
                                     User_Email := User_Email user\<rparr>
           in if \<not> username_ok (User_Username currentUser) then
                (Inl (NewValidationError
                        ''Imja pol'zovatelja mozhet soderzhat' tol'ko bukvy, cifry i simvol podcherkivanija''),
                 w1)
              else if \<not> email_ok (User_Email currentUser) then
                (Inl (NewValidationError ''Nekorrektnyj email''), w1)
              else
                (case userRepo_Update currentUser w1 of
                   (Some err, w2) \<Rightarrow> (Inl err, w2)
                 | (None, w2) \<Rightarrow>
                     (case userRepo_GetByID (User_ID user) w2 of
                        (Inl err, w3) \<Rightarrow> (Inl err, w3)
                      | (Inr updatedUser, w3) \<Rightarrow>
                          (Inr (updatedUser\<lparr>User_Password := []\<rparr>), w3)))))"

section \<open>The authentication middleware\<close>

text \<open>
  The value of the \<open>Authorization\<close> header as \<open>strings.SplitN(authHeader, " ", 2)\<close>
  sees it: the text before the first space, and the token text after it if there is a
  space. The handler either writes an error response or calls the next handler with the
  user's ID, role and name in the context.
\<close>

datatype header = Header string "token_string option"

datatype outcome = Responded error | Next int string string

definition Authentication :: "JWTService \<Rightarrow> int \<Rightarrow> header \<Rightarrow> outcome" where
  "Authentication jwtService now authHeader =
     (case authHeader of
        Header scheme None \<Rightarrow>
          if scheme = [] then
            Responded (NewUnauthorizedError ''Otsutstvuet zagolovok Authorization'' None)
          else Responded (NewUnauthorizedError ''Nevernyj format zagolovka Authorization'' None)
      | Header scheme (Some tokenString) \<Rightarrow>
          if scheme \<noteq> ''Bearer'' then
            Responded (NewUnauthorizedError ''Nevernyj format zagolovka Authorization'' None)
          else (case ValidateAccessToken jwtService now tokenString of
                  Inl err \<Rightarrow> Responded (NewJWTInvalidError err)
                | Inr claims \<Rightarrow>
                    Next (Claims_UserID claims) (Claims_Role claims) (Claims_Username claims)))"

section \<open>Observing a run\<close>

text \<open>The events a call has added to the trace.\<close>

definition since :: "world \<Rightarrow> world \<Rightarrow> event list" where
  "since w w' = drop (length (trace w)) (trace w')"

fun cache_key :: "event \<Rightarrow> string option" where
  "cache_key (CacheGet k) = Some k"
| "cache_key (CacheSet k) = Some k"
| "cache_key (CacheDelete k) = Some k"
| "cache_key _ = None"

text \<open>The keys of the calls that reached the cache repository, in order.\<close>

definition cache_keys :: "event list \<Rightarrow> string list" where
  "cache_keys es = List.map_filter cache_key es"

fun is_repo_read :: "event \<Rightarrow> bool" where
  "is_repo_read (MangaRepoGetByID i) = True"
| "is_repo_read (ChapterRepoGetByID i) = True"
| "is_repo_read _ = False"

text \<open>The calls of \<open>GetByID\<close> that reached an authoritative repository.\<close>

definition repo_reads :: "event list \<Rightarrow> event list" where
  "repo_reads es = filter is_repo_read es"

text \<open>A step that leaves the key-value store, its pending failures and the clock alone.\<close>

definition quiet :: "world \<Rightarrow> world \<Rightarrow> bool" where
  "quiet w w' =
     (redisKV w' = redisKV w \<and> redisFaults w' = redisFaults w \<and> clock w' = clock w
      \<and> (\<exists>es. trace w' = trace w @ es \<and> cache_keys es = []))"

text \<open>The next command to the key-value store will not fail.\<close>

definition cache_reachable :: "world \<Rightarrow> bool" where
  "cache_reachable w = (case redisFaults w of [] \<Rightarrow> True | f # fs \<Rightarrow> \<not> f)"

text \<open>
  The state a successful write of \<open>GetByID\<close> leaves: the text under the key, to expire
  thirty minutes from now.
\<close>

definition stored :: "world \<Rightarrow> string \<Rightarrow> cached \<Rightarrow> bool" where
  "stored w key c = (redisKV w key = Some (c, Some (clock w + 1800)))"

text \<open>
  A later state in which that entry is as it was in \<open>w1\<close>, has not expired and can be
  read.
\<close>

definition still_cached :: "world \<Rightarrow> world \<Rightarrow> string \<Rightarrow> bool" where
  "still_cached w1 w2 key =
     (redisKV w2 key = redisKV w1 key \<and> clock w2 < clock w1 + 1800 \<and> cache_reachable w2)"

text \<open>What the manga repository's \<open>GetByID\<close> looks at.\<close>

definition pg_view ::
  "world \<Rightarrow> Manga list \<times> (int \<times> string) list \<times> (int \<times> int) list \<times> string option list" where
  "pg_view w = (mangaTbl w, genresTbl w, mangaGenresTbl w, pgFaults w)"

text \<open>
  The cache agrees with the repository on a manga: if it serves a text for the key that
  decodes, the text decodes to what the repository returns for that ID.
\<close>

definition coherent :: "int \<Rightarrow> world \<Rightarrow> bool" where
  "coherent i w =
     (case CacheRepository_Get (mangaKey i) w of
        (Inr c, w1) \<Rightarrow>
          if c = Empty then True
          else (case Unmarshal_Manga c of
                  Inl err \<Rightarrow> True
                | Inr m \<Rightarrow> fst (mangaRepo_GetByID i w1) = Inr m)
      | (Inl err, w1) \<Rightarrow> True)"

text \<open>The claims a token text carries.\<close>

fun token_claims :: "token_string \<Rightarrow> Claims option" where
  "token_claims (Compact method claims sg) = Some claims"
| "token_claims _ = None"

section \<open>Example data\<close>

definition world0 :: world where
  "world0 =
     \<lparr>clock = 1000, mangaTbl = [], mangaSeq = 1, genresTbl = [], genresSeq = 1,
      mangaGenresTbl = [], chapterTbl = [], userTbl = [], userSeq = 1, pgFaults = [],
      redisKV = Map.empty, redisFaults = [], mangaViews = (\<lambda>i. 0),
      chapterViews = (\<lambda>i. 0), analyticsFaults = [], trace = []\<rparr>"

definition berserk :: Manga where
  "berserk =
     \<lparr>Manga_ID = 1, Manga_Title = ''Berserk'', Manga_Description = ''Dark fantasy'',
      Manga_CoverImage = [], Manga_Status = ''ongoing'', Manga_Author = ''Miura'',
      Manga_Artist = [], Manga_Genres = [], Manga_CreatedAt = 900, Manga_UpdatedAt = 900\<rparr>"

definition prologue :: Chapter where
  "prologue =
     \<lparr>Chapter_ID = 7, Chapter_MangaID = 1, Chapter_Number = 100,
      Chapter_Title = ''The Black Swordsman'', Chapter_CreatedAt = 910,
      Chapter_UpdatedAt = 910\<rparr>"

definition shop :: world where
  "shop = world0\<lparr>mangaTbl := [berserk], mangaSeq := 2, chapterTbl := [prologue]\<rparr>"

definition first_page :: MangaFilter where
  "first_page =
     \<lparr>Filter_Title = [], Filter_Genres = [], Filter_Status = [], Filter_Limit = 10,
      Filter_Offset = 0\<rparr>"

definition by_status :: MangaFilter where
  "by_status = first_page\<lparr>Filter_Status := ''ongoing''\<rparr>"

text \<open>The shop after \<open>GetByID 1\<close> of the manga use case, and after \<open>GetByID 7\<close> of the chapter use case.\<close>

definition shop_manga_read :: world where
  "shop_manga_read =
     shop\<lparr>redisKV := [''manga:1'' \<mapsto> (JsonManga berserk, Some 2800)],
          mangaViews := (\<lambda>i. 0)(1 := 1),
          trace := [CacheGet ''manga:1'', MangaRepoGetByID 1, RecordMangaView 1,
                    CacheSet ''manga:1'']\<rparr>"

definition shop_chapter_read :: world where
  "shop_chapter_read =
     shop\<lparr>redisKV := [''chapter:7'' \<mapsto> (JsonChapter prologue, Some 2800)],
          chapterViews := (\<lambda>i. 0)(7 := 1),
          trace := [CacheGet ''chapter:7'', ChapterRepoGetByID 7, GetChapterViews 7,
                    RecordChapterView 7 1, CacheSet ''chapter:7'']\<rparr>"

text \<open>
  The manga is retitled while the key-value store is down: both invalidations of
  \<open>Update\<close> fail and are only logged, so the store keeps the old text.
\<close>

definition remastered :: Manga where
  "remastered = berserk\<lparr>Manga_Title := ''Berserk Deluxe'', Manga_UpdatedAt := 1000\<rparr>"

definition stale :: world where
  "stale =
     shop_manga_read
       \<lparr>mangaTbl := [remastered],
        trace := trace shop_manga_read @
          [MangaRepoGetByID 1, MangaRepoUpdate 1, MangaRepoGetByID 1,
           CacheDelete ''manga:1'', LogError ''redis delete'', LogError ''invalidate manga'',
           CacheDelete ''manga:list:*'', LogError ''redis delete'',
           LogError ''invalidate manga list'']\<rparr>"

text \<open>The shop after the first page of the unfiltered listing was read.\<close>

definition warmed :: world where
  "warmed =
     shop\<lparr>redisKV := [''manga:list:10:0'' \<mapsto> (JsonMangaList [berserk], Some 1600)],
          trace := [CacheGet ''manga:list:10:0'', MangaRepoList,
                    CacheSet ''manga:list:10:0'']\<rparr>"

definition vagabond :: Manga where
  "vagabond =
     \<lparr>Manga_ID = 0, Manga_Title = ''Vagabond'', Manga_Description = ''Musashi'',
      Manga_CoverImage = [], Manga_Status = ''hiatus'', Manga_Author = ''Inoue'',
      Manga_Artist = [], Manga_Genres = [], Manga_CreatedAt = 0, Manga_UpdatedAt = 0\<rparr>"

text \<open>The warmed shop after each of the three writes of the manga use case.\<close>

definition after_create :: world where
  "after_create = snd (mangaUseCase_Create vagabond warmed)"

definition after_update :: world where
  "after_update =
     snd (mangaUseCase_Update (berserk\<lparr>Manga_Title := ''Berserk Deluxe''\<rparr>) warmed)"

definition after_delete :: world where
  "after_delete = snd (mangaUseCase_Delete 1 warmed)"

text \<open>A token service with the default secrets and lifetimes (one day, seven days).\<close>

definition service :: JWTService where
  "service =
     \<lparr>accessSecret = ''your-secret-key'', refreshSecret = ''your-refresh-secret-key'',
      accessExpires = 86400, refreshExpires = 604800\<rparr>"

definition alice :: User where
  "alice =
     \<lparr>User_ID = 7, User_Username = ''alice'', User_Email = ''alice@example.org'',
      User_Password = ''$2a$10$wonderland'', User_Role = ''admin'', User_CreatedAt = 10,
      User_UpdatedAt = 20\<rparr>"

text \<open>The pair that the service issues to her at second 1000.\<close>

definition alice_access :: token_string where
  "alice_access =
     Compact HS256
       \<lparr>Claims_UserID = 7, Claims_Username = ''alice'', Claims_Role = ''admin'',
        Claims_ExpiresAt = Some 87400, Claims_IssuedAt = Some 1000,
        Claims_NotBefore = Some 1000, Claims_Subject = ''7''\<rparr>
       (MAC HS256 ''your-secret-key'')"

definition alice_refresh :: token_string where
  "alice_refresh =
     Compact HS256
       \<lparr>Claims_UserID = 7, Claims_Username = [], Claims_Role = [],
        Claims_ExpiresAt = Some 605800, Claims_IssuedAt = Some 1000,
        Claims_NotBefore = Some 1000, Claims_Subject = ''7''\<rparr>
       (MAC HS256 ''your-refresh-secret-key'')"

text \<open>A store with her row in it, an hour later, after she was renamed and demoted.\<close>

definition registry :: world where
  "registry =
     world0\<lparr>clock := 4600,
            userTbl := [alice\<lparr>User_Username := ''alicia'', User_Role := ''user''\<rparr>],
            userSeq := 8\<rparr>"

definition bob :: UserRegistration where
  "bob = \<lparr>Reg_Username = ''bob_99'', Reg_Email = ''bob.b@mail.example.org'',
          Reg_Password = ''hunter22''\<rparr>"

text \<open>The same store with a second user in it.\<close>

definition carol :: User where
  "carol =
     \<lparr>User_ID = 3, User_Username = ''carol'', User_Email = ''carol@example.org'',
      User_Password = ''$2a$10$lookingglass'', User_Role = ''user'', User_CreatedAt = 30,
      User_UpdatedAt = 40\<rparr>"

definition registry2 :: world where
  "registry2 =
     registry\<lparr>userTbl := [carol, alice\<lparr>User_Username := ''alicia'', User_Role := ''user''\<rparr>]\<rparr>"

text \<open>A profile update that also asks for another role and another password.\<close>

definition request :: User where
  "request =
     \<lparr>User_ID = 7, User_Username = ''alice_l'', User_Email = ''liddell@example.org'',
      User_Password = ''chosen'', User_Role = ''admin'', User_CreatedAt = 0,
      User_UpdatedAt = 0\<rparr>"

section \<open>Basic facts\<close>

declare digits.simps [simp del]

lemma world0_fields [simp]:
  "clock world0 = 1000" "mangaTbl world0 = []" "mangaSeq world0 = 1" "genresTbl world0 = []"
  "genresSeq world0 = 1" "mangaGenresTbl world0 = []" "chapterTbl world0 = []"
  "userTbl world0 = []" "userSeq world0 = 1" "pgFaults world0 = []"
  "redisKV world0 = Map.empty" "redisFaults world0 = []" "mangaViews world0 = (\<lambda>i. 0)"
  "chapterViews world0 = (\<lambda>i. 0)" "analyticsFaults world0 = []" "trace world0 = []"
  by (simp_all add: world0_def)

lemma fmt_d_examples [simp]:
  "fmt_d 0 = ''0''" "fmt_d 1 = ''1''" "fmt_d 2 = ''2''" "fmt_d 7 = ''7''" "fmt_d 10 = ''10''"
  "fmt_d 42 = ''42''"
  by (simp_all add: fmt_d_def digits.simps digit_char_def)

lemma since_append [simp]: "trace w' = trace w @ es \<Longrightarrow> since w w' = es"
  by (simp add: since_def)

lemma cache_keys_simps [simp]:
  "cache_keys [] = []"
  "cache_keys (e # es) =
     (case cache_key e of None \<Rightarrow> cache_keys es | Some k \<Rightarrow> k # cache_keys es)"
  by (simp_all add: cache_keys_def List.map_filter_simps split: option.splits)

lemma cache_keys_append [simp]: "cache_keys (es @ fs) = cache_keys es @ cache_keys fs"
  by (induction es) (simp_all split: option.splits)

lemmas cache_defs = CacheRepository_Get_def RedisClient_Get_def CacheRepository_Set_def
  RedisClient_Set_def CacheRepository_Delete_def RedisClient_Delete_def redis_command_def
  emit_def live_def log_if_error_def

lemmas analytics_defs = RecordMangaView_repo_def GetChapterViews_repo_def
  RecordChapterView_repo_def analytics_command_def

lemmas manga_read_defs = mangaRepo_GetByID_def GetGenresForManga_def pg_statement_def

subsection \<open>Steps of the relational store are quiet\<close>

lemma quiet_refl [simp]: "quiet w w"
  by (simp add: quiet_def)

lemma quiet_trans: "quiet w w' \<Longrightarrow> quiet w' w'' \<Longrightarrow> quiet w w''"
  by (auto simp: quiet_def)

lemma quiet_emit: "cache_key e = None \<Longrightarrow> quiet w (emit e w)"
  by (auto simp: quiet_def emit_def)

lemma quiet_pg: "quiet w (snd (pg_statement w))"
  by (auto simp: quiet_def pg_statement_def split: list.splits)

lemma quiet_genres: "quiet w (snd (GetGenresForManga i w))"
proof -
  obtain r w1 where pg: "pg_statement w = (r, w1)" by (cases "pg_statement w")
  have 1: "quiet w w1" using quiet_pg [of w] pg by simp
  have 2: "quiet w (emit (LogError ''genres for manga'') w1)"
    by (rule quiet_trans [OF 1]) (simp add: quiet_emit)
  show ?thesis using pg 1 2 by (simp add: GetGenresForManga_def split: option.splits)
qed

lemma quiet_fold:
  assumes "\<And>x a v. quiet v (snd (step x (a, v)))"
  shows "quiet w (snd (fold step xs (acc, w)))"
proof (induction xs arbitrary: acc w)
  case Nil
  then show ?case by simp
next
  case (Cons x xs)
  obtain a v where s: "step x (acc, w) = (a, v)" by (cases "step x (acc, w)")
  have "quiet w v" using assms [of w x acc] s by simp
  moreover have "quiet v (snd (fold step xs (a, v)))" by (rule Cons.IH)
  ultimately show ?case using s by (simp add: quiet_trans)
qed

lemma quiet_with_genres: "quiet w (snd (with_genres rows w))"
  unfolding with_genres_def
proof (rule quiet_fold)
  fix x :: Manga and a :: "Manga list" and v
  obtain r v1 where g: "GetGenresForManga (Manga_ID x) v = (r, v1)"
    by (cases "GetGenresForManga (Manga_ID x) v")
  have 1: "quiet v v1" using quiet_genres [of v "Manga_ID x"] g by simp
  have 2: "quiet v (emit (LogError ''manga list genres'') v1)"
    by (rule quiet_trans [OF 1]) (simp add: quiet_emit)
  show "quiet v (snd (case (a, v) of
          (acc, w') \<Rightarrow>
             (case GetGenresForManga (Manga_ID x) w' of
               (Inl err, w1) \<Rightarrow>
                 (acc @ [x\<lparr>Manga_Genres := []\<rparr>], emit (LogError ''manga list genres'') w1)
             | (Inr genres, w1) \<Rightarrow> (acc @ [x\<lparr>Manga_Genres := genres\<rparr>], w1))))"
    using g 1 2 by (simp split: sum.splits)
qed

lemma quiet_list: "quiet w (snd (mangaRepo_List f w))"
proof -
  let ?w0 = "emit MangaRepoList w"
  obtain r w1 where pg: "pg_statement ?w0 = (r, w1)" by (cases "pg_statement ?w0")
  obtain ms w2 where wg: "with_genres (select_manga f (mangaTbl w1)) w1 = (ms, w2)"
    by (cases "with_genres (select_manga f (mangaTbl w1)) w1")
  have 0: "quiet w ?w0" by (simp add: quiet_emit)
  have 1: "quiet w w1" using quiet_trans [OF 0 quiet_pg [of ?w0]] pg by simp
  have 2: "quiet w (emit (LogError ''manga list'') w1)"
    by (rule quiet_trans [OF 1]) (simp add: quiet_emit)
  have 3: "quiet w w2"
    using quiet_trans [OF 1 quiet_with_genres [of w1 "select_manga f (mangaTbl w1)"]] wg
    by simp
  show ?thesis using pg wg 1 2 3 by (simp add: mangaRepo_List_def split: option.splits)
qed

lemma quiet_since: "quiet w w' \<Longrightarrow> cache_keys (since w w') = [] \<and> redisKV w' = redisKV w"
  by (auto simp: quiet_def since_def)

section \<open>Reading a manga on a cold cache\<close>

text \<open>
  Claim C5. When the cache gives nothing for the key (a miss, or a failed \<open>Get\<close>) and the
  manga repository answers \<open>GetByID\<close> with an error, the use case returns exactly that
  error and the world as the repository left it: no \<open>Set\<close> reaches the cache repository
  and the key-value store holds what it held before the call.
\<close>

theorem cold_load_error_propagates:
  assumes "CacheRepository_Get (mangaKey i) w = (Inl e, w1)"
      and "mangaRepo_GetByID i w1 = (Inl err, w2)"
  shows "mangaUseCase_GetByID i w = (Inl err, w2)
     \<and> redisKV w2 = redisKV w
     \<and> cache_keys (since w w2) = [mangaKey i]
     \<and> CacheSet (mangaKey i) \<notin> set (since w w2)"
  using assms
  by (auto simp: mangaUseCase_GetByID_def mangaUseCase_load_def manga_read_defs cache_defs
        since_def split: prod.splits sum.splits option.splits list.splits if_splits)

theorem cold_load_error_propagates_witness:
  "mangaUseCase_GetByID 42 world0
     = (Inl (NewMangaNotFoundError 42),
        world0\<lparr>trace := [CacheGet ''manga:42'', MangaRepoGetByID 42]\<rparr>)
   \<and> redisKV (world0\<lparr>trace := [CacheGet ''manga:42'', MangaRepoGetByID 42]\<rparr>)
       = redisKV world0"
proof -
  have a: "CacheRepository_Get (mangaKey 42) world0
             = (Inl RedisNil, world0\<lparr>trace := [CacheGet ''manga:42'']\<rparr>)"
    by (simp add: mangaKey_def cache_defs)
  have b: "mangaRepo_GetByID 42 (world0\<lparr>trace := [CacheGet ''manga:42'']\<rparr>)
             = (Inl (NewMangaNotFoundError 42),
                world0\<lparr>trace := [CacheGet ''manga:42'', MangaRepoGetByID 42]\<rparr>)"
    by (simp add: manga_read_defs emit_def)
  show ?thesis using cold_load_error_propagates [OF a b] by simp
qed

section \<open>Listing with a filter\<close>

lemma get_trace:
  "\<exists>l. trace (snd (CacheRepository_Get k w)) = trace w @ CacheGet k # l \<and> cache_keys l = []"
  by (simp add: cache_defs split: list.splits option.splits prod.splits)

lemma set_trace:
  "\<exists>l. trace (log_if_error tag (CacheRepository_Set k v ttl w)) = trace w @ CacheSet k # l
       \<and> cache_keys l = []"
  by (simp add: cache_defs split: list.splits option.splits prod.splits)

lemma listLoad_trace:
  assumes "unfiltered f"
  shows "\<exists>l. trace (snd (mangaUseCase_listLoad f w)) = trace w @ l
           \<and> set (cache_keys l) \<subseteq> {mangaListKey (Filter_Limit f) (Filter_Offset f)}"
proof -
  obtain r w1 where l: "mangaRepo_List f w = (r, w1)" by (cases "mangaRepo_List f w")
  have "quiet w w1" using quiet_list [of w f] l by simp
  then obtain l1 where t1: "trace w1 = trace w @ l1" "cache_keys l1 = []"
    by (auto simp: quiet_def)
  show ?thesis
  proof (cases r)
    case (Inl e)
    then show ?thesis using l t1 by (simp add: mangaUseCase_listLoad_def)
  next
    case (Inr ms)
    obtain l2 where "trace (log_if_error ''cache manga list''
        (CacheRepository_Set (mangaListKey (Filter_Limit f) (Filter_Offset f))
           (JsonMangaList ms) 600 w1))
      = trace w1 @ CacheSet (mangaListKey (Filter_Limit f) (Filter_Offset f)) # l2"
      "cache_keys l2 = []"
      using set_trace by blast
    then show ?thesis using l Inr t1 assms by (simp add: mangaUseCase_listLoad_def)
  qed
qed

lemma list_trace:
  assumes "unfiltered f"
  shows "\<exists>es. since w (snd (mangaUseCase_List f w))
                = CacheGet (mangaListKey (Filter_Limit f) (Filter_Offset f)) # es
            \<and> set (cache_keys es) \<subseteq> {mangaListKey (Filter_Limit f) (Filter_Offset f)}"
proof -
  let ?k = "mangaListKey (Filter_Limit f) (Filter_Offset f)"
  obtain r w1 where g: "CacheRepository_Get ?k w = (r, w1)"
    by (cases "CacheRepository_Get ?k w")
  obtain l0 where t0: "trace w1 = trace w @ CacheGet ?k # l0" "cache_keys l0 = []"
    using get_trace [of ?k w] g by auto
  have load: "\<And>(wx::world) lx. trace wx = trace w @ CacheGet ?k # lx \<Longrightarrow> cache_keys lx = [] \<Longrightarrow>
     \<exists>es. since w (snd (mangaUseCase_listLoad f wx)) = CacheGet ?k # es
          \<and> set (cache_keys es) \<subseteq> {?k}"
  proof -
    fix wx :: world and lx
    assume a: "trace wx = trace w @ CacheGet ?k # lx" "cache_keys lx = []"
    obtain l where "trace (snd (mangaUseCase_listLoad f wx)) = trace wx @ l"
      "set (cache_keys l) \<subseteq> {?k}"
      using listLoad_trace [OF assms, of wx] by blast
    then show "\<exists>es. since w (snd (mangaUseCase_listLoad f wx)) = CacheGet ?k # es
          \<and> set (cache_keys es) \<subseteq> {?k}"
      using a by (simp add: since_def)
  qed
  have l1: "\<exists>es. since w (snd (mangaUseCase_listLoad f w1)) = CacheGet ?k # es
          \<and> set (cache_keys es) \<subseteq> {?k}"
    by (rule load [OF t0])
  have l2: "\<exists>es. since w (snd (mangaUseCase_listLoad f (emit (LogError ''decode manga list'') w1)))
             = CacheGet ?k # es \<and> set (cache_keys es) \<subseteq> {?k}"
    by (rule load [of _ "l0 @ [LogError ''decode manga list'']"]) (simp_all add: emit_def t0)
  have hit: "\<exists>es. since w w1 = CacheGet ?k # es \<and> set (cache_keys es) \<subseteq> {?k}"
    using t0 by (simp add: since_def)
  show ?thesis
    using assms g l1 l2 hit
    by (simp add: mangaUseCase_List_def split: sum.splits)
qed

text \<open>
  Claim C8. When the filter has a title, a status or a genre, \<open>List\<close> is the manga
  repository's \<open>List\<close> and nothing else: the same result and the same world, no call to
  the cache repository, the key-value store untouched. When the filter has none of them, the
  call starts with a \<open>Get\<close> of the key \<open>manga:list:<limit>:<offset>\<close> and every call it
  makes to the cache repository is on that key.
\<close>

theorem filtered_list_bypasses_cache:
  "(Filter_Title f \<noteq> [] \<or> Filter_Status f \<noteq> [] \<or> Filter_Genres f \<noteq> [] \<longrightarrow>
      mangaUseCase_List f w = mangaRepo_List f w
      \<and> cache_keys (since w (snd (mangaUseCase_List f w))) = []
      \<and> redisKV (snd (mangaUseCase_List f w)) = redisKV w)
   \<and> (Filter_Title f = [] \<and> Filter_Status f = [] \<and> Filter_Genres f = [] \<longrightarrow>
      (\<exists>es. since w (snd (mangaUseCase_List f w))
               = CacheGet (mangaListKey (Filter_Limit f) (Filter_Offset f)) # es
           \<and> set (cache_keys es) \<subseteq> {mangaListKey (Filter_Limit f) (Filter_Offset f)}))"
proof (intro conjI impI)
  assume a: "Filter_Title f \<noteq> [] \<or> Filter_Status f \<noteq> [] \<or> Filter_Genres f \<noteq> []"
  then have nf: "\<not> unfiltered f" by (auto simp: unfiltered_def)
  show eq: "mangaUseCase_List f w = mangaRepo_List f w"
    using nf
    by (simp add: mangaUseCase_List_def mangaUseCase_listLoad_def split: prod.splits sum.splits)
  show "cache_keys (since w (snd (mangaUseCase_List f w))) = []"
    using eq quiet_since [OF quiet_list [of w f]] by simp
  show "redisKV (snd (mangaUseCase_List f w)) = redisKV w"
    using eq quiet_since [OF quiet_list [of w f]] by simp
next
  assume "Filter_Title f = [] \<and> Filter_Status f = [] \<and> Filter_Genres f = []"
  then have "unfiltered f" by (simp add: unfiltered_def)
  then show "\<exists>es. since w (snd (mangaUseCase_List f w))
               = CacheGet (mangaListKey (Filter_Limit f) (Filter_Offset f)) # es
           \<and> set (cache_keys es) \<subseteq> {mangaListKey (Filter_Limit f) (Filter_Offset f)}"
    by (rule list_trace)
qed

lemma shop_fields [simp]:
  "clock shop = 1000" "mangaTbl shop = [berserk]" "mangaSeq shop = 2" "genresTbl shop = []"
  "genresSeq shop = 1" "mangaGenresTbl shop = []" "chapterTbl shop = [prologue]"
  "userTbl shop = []" "userSeq shop = 1" "pgFaults shop = []"
  "redisKV shop = Map.empty" "redisFaults shop = []" "mangaViews shop = (\<lambda>i. 0)"
  "chapterViews shop = (\<lambda>i. 0)" "analyticsFaults shop = []" "trace shop = []"
  by (simp_all add: shop_def)

lemma berserk_fields [simp]:
  "Manga_ID berserk = 1" "Manga_Status berserk = ''ongoing''" "Manga_Genres berserk = []"
  "Manga_UpdatedAt berserk = 900" "Manga_Title berserk = ''Berserk''"
  "berserk\<lparr>Manga_Genres := []\<rparr> = berserk"
  by (simp_all add: berserk_def)

lemma shop_by_status:
  "mangaRepo_List by_status shop = (Inr [berserk], shop\<lparr>trace := [MangaRepoList]\<rparr>)"
  by (simp add: mangaRepo_List_def by_status_def first_page_def select_manga_def
        with_genres_def GetGenresForManga_def pg_statement_def emit_def)

theorem filtered_list_bypasses_cache_witness:
  "mangaUseCase_List by_status shop = (Inr [berserk], shop\<lparr>trace := [MangaRepoList]\<rparr>)
   \<and> cache_keys (since shop (snd (mangaUseCase_List by_status shop))) = []
   \<and> redisKV (snd (mangaUseCase_List by_status shop)) = redisKV shop
   \<and> (\<exists>es. since shop (snd (mangaUseCase_List first_page shop))
               = CacheGet ''manga:list:10:0'' # es
           \<and> set (cache_keys es) \<subseteq> {''manga:list:10:0''})"
proof -
  have a: "Filter_Title by_status \<noteq> [] \<or> Filter_Status by_status \<noteq> []
             \<or> Filter_Genres by_status \<noteq> []"
    by (simp add: by_status_def)
  have b: "Filter_Title first_page = [] \<and> Filter_Status first_page = []
             \<and> Filter_Genres first_page = []"
    by (simp add: first_page_def)
  have k: "mangaListKey (Filter_Limit first_page) (Filter_Offset first_page)
             = ''manga:list:10:0''"
    by (simp add: first_page_def mangaListKey_def)
  show ?thesis
    using filtered_list_bypasses_cache [where f = by_status and w = shop] a
      filtered_list_bypasses_cache [where f = first_page and w = shop] b k shop_by_status
    by simp
qed

section \<open>Reading through a warm cache\<close>

lemma manga_hit:
  assumes "stored w1 (mangaKey i) (JsonManga m)" "still_cached w1 w2 (mangaKey i)"
  shows "fst (mangaUseCase_GetByID i w2) = Inr m
     \<and> repo_reads (since w2 (snd (mangaUseCase_GetByID i w2))) = []"
  using assms
  by (auto simp: stored_def still_cached_def cache_reachable_def mangaUseCase_GetByID_def
        cache_defs analytics_defs since_def repo_reads_def
        split: list.splits prod.splits)

lemma chapter_hit:
  assumes "stored v1 (chapterKey j) (JsonChapter c)" "still_cached v1 v2 (chapterKey j)"
  shows "(\<exists>views. fst (chapterUseCase_GetByID j v2)
                     = Inr \<lparr>Stats_Chapter = c, Stats_Views = views\<rparr>)
     \<and> repo_reads (since v2 (snd (chapterUseCase_GetByID j v2))) = []"
  using assms
  by (auto simp: stored_def still_cached_def cache_reachable_def chapterUseCase_GetByID_def
        chapterUseCase_views_def cache_defs analytics_defs since_def repo_reads_def
        split: list.splits prod.splits)

text \<open>
  Claim C4. Let a \<open>GetByID\<close> have returned an entity and left its encoding in the cache
  under the entity's key. In any later state in which that entry is unchanged, has not
  expired and can be read, \<open>GetByID\<close> for the same ID returns the cached entity and the
  call reaches no authoritative repository's \<open>GetByID\<close>. This holds for the manga use
  case and for the chapter use case (whose result also carries the view count).
\<close>

theorem cache_hit_avoids_repository:
  "(mangaUseCase_GetByID i w = (Inr m, w1) \<and> stored w1 (mangaKey i) (JsonManga m)
      \<and> still_cached w1 w2 (mangaKey i) \<longrightarrow>
      fst (mangaUseCase_GetByID i w2) = Inr m
      \<and> repo_reads (since w2 (snd (mangaUseCase_GetByID i w2))) = [])
   \<and> (chapterUseCase_GetByID j v = (Inr cs, v1)
      \<and> stored v1 (chapterKey j) (JsonChapter (Stats_Chapter cs))
      \<and> still_cached v1 v2 (chapterKey j) \<longrightarrow>
      (\<exists>views. fst (chapterUseCase_GetByID j v2)
                  = Inr \<lparr>Stats_Chapter = Stats_Chapter cs, Stats_Views = views\<rparr>)
      \<and> repo_reads (since v2 (snd (chapterUseCase_GetByID j v2))) = [])"
  using manga_hit [of w1 i m w2] chapter_hit [of v1 j "Stats_Chapter cs" v2] by blast

lemma prologue_fields [simp]:
  "Chapter_ID prologue = 7" "Chapter_MangaID prologue = 1"
  by (simp_all add: prologue_def)

lemma shop_manga_read_fields [simp]:
  "clock shop_manga_read = 1000" "mangaTbl shop_manga_read = [berserk]"
  "genresTbl shop_manga_read = []" "mangaGenresTbl shop_manga_read = []"
  "pgFaults shop_manga_read = []" "redisFaults shop_manga_read = []"
  "analyticsFaults shop_manga_read = []"
  "redisKV shop_manga_read = [''manga:1'' \<mapsto> (JsonManga berserk, Some 2800)]"
  by (simp_all add: shop_manga_read_def)

lemma manga_first_read: "mangaUseCase_GetByID 1 shop = (Inr berserk, shop_manga_read)"
  by (simp add: mangaUseCase_GetByID_def mangaUseCase_load_def mangaKey_def manga_read_defs
        cache_defs analytics_defs shop_manga_read_def)

lemma chapter_first_read:
  "chapterUseCase_GetByID 7 shop
     = (Inr \<lparr>Stats_Chapter = prologue, Stats_Views = 0\<rparr>, shop_chapter_read)"
  by (simp add: chapterUseCase_GetByID_def chapterUseCase_load_def chapterUseCase_views_def
        chapterKey_def chapterRepo_GetByID_def pg_statement_def
        cache_defs analytics_defs shop_chapter_read_def)

theorem cache_hit_avoids_repository_witness:
  "mangaUseCase_GetByID 1 shop = (Inr berserk, shop_manga_read)
   \<and> fst (mangaUseCase_GetByID 1 (shop_manga_read\<lparr>clock := 2000\<rparr>)) = Inr berserk
   \<and> repo_reads (since (shop_manga_read\<lparr>clock := 2000\<rparr>)
        (snd (mangaUseCase_GetByID 1 (shop_manga_read\<lparr>clock := 2000\<rparr>)))) = []
   \<and> chapterUseCase_GetByID 7 shop
       = (Inr \<lparr>Stats_Chapter = prologue, Stats_Views = 0\<rparr>, shop_chapter_read)
   \<and> (\<exists>views. fst (chapterUseCase_GetByID 7 (shop_chapter_read\<lparr>clock := 2000\<rparr>))
                = Inr \<lparr>Stats_Chapter = prologue, Stats_Views = views\<rparr>)
   \<and> repo_reads (since (shop_chapter_read\<lparr>clock := 2000\<rparr>)
        (snd (chapterUseCase_GetByID 7 (shop_chapter_read\<lparr>clock := 2000\<rparr>)))) = []"
proof -
  have m1: "stored shop_manga_read (mangaKey 1) (JsonManga berserk)"
    by (simp add: stored_def mangaKey_def)
  have m2: "still_cached shop_manga_read (shop_manga_read\<lparr>clock := 2000\<rparr>) (mangaKey 1)"
    by (simp add: still_cached_def cache_reachable_def)
  have c1: "stored shop_chapter_read (chapterKey 7) (JsonChapter prologue)"
    by (simp add: stored_def chapterKey_def shop_chapter_read_def)
  have c2: "still_cached shop_chapter_read (shop_chapter_read\<lparr>clock := 2000\<rparr>)
              (chapterKey 7)"
    by (simp add: still_cached_def cache_reachable_def shop_chapter_read_def)
  show ?thesis
    using cache_hit_avoids_repository
            [where i = 1 and w = shop and m = berserk and ?w1.0 = shop_manga_read
               and ?w2.0 = "shop_manga_read\<lparr>clock := 2000\<rparr>" and j = 7 and v = shop
               and cs = "\<lparr>Stats_Chapter = prologue, Stats_Views = 0\<rparr>"
               and ?v1.0 = shop_chapter_read
               and ?v2.0 = "shop_chapter_read\<lparr>clock := 2000\<rparr>"]
      manga_first_read chapter_first_read m1 m2 c1 c2
    by simp
qed

section \<open>The result of a read and the state of the cache\<close>

lemma repo_result_view:
  assumes "pg_view w' = pg_view w"
  shows "fst (mangaRepo_GetByID i w') = fst (mangaRepo_GetByID i w)"
proof -
  from assms have e: "mangaTbl w' = mangaTbl w" "genresTbl w' = genresTbl w"
    "mangaGenresTbl w' = mangaGenresTbl w" "pgFaults w' = pgFaults w"
    by (simp_all add: pg_view_def)
  show ?thesis
    by (simp add: e manga_read_defs emit_def split: list.splits option.splits)
qed

lemma view_emit [simp]: "pg_view (emit e w) = pg_view w"
  by (simp add: pg_view_def emit_def)

lemma view_cache_get [simp]: "pg_view (snd (CacheRepository_Get k w)) = pg_view w"
  by (simp add: pg_view_def cache_defs split: list.splits option.splits prod.splits)

lemma load_result: "fst (mangaUseCase_load i w) = fst (mangaRepo_GetByID i w)"
  by (simp add: mangaUseCase_load_def Let_def split: prod.splits sum.splits)

lemma repo_error_code:
  "fst (mangaRepo_GetByID i w) = Inl e \<Longrightarrow>
     Code e = Some ErrorCodeMangaNotFound \<or> Code e = Some ErrorCodeDatabase"
  by (auto simp: manga_read_defs emit_def NewMangaNotFoundError_def NewDatabaseError_def
        split: list.splits option.splits prod.splits sum.splits)

text \<open>
  Whatever the cache does, the use case either returns an entity that the cache served, or
  it returns what the repository answers.
\<close>

lemma hit_or_repository:
  "(\<exists>c w1 m. CacheRepository_Get (mangaKey i) w = (Inr c, w1) \<and> c \<noteq> Empty
       \<and> Unmarshal_Manga c = Inr m \<and> fst (mangaUseCase_GetByID i w) = Inr m)
   \<or> fst (mangaUseCase_GetByID i w) = fst (mangaRepo_GetByID i w)"
proof -
  obtain r w1 where g: "CacheRepository_Get (mangaKey i) w = (r, w1)"
    by (cases "CacheRepository_Get (mangaKey i) w")
  have v: "pg_view w1 = pg_view w" using view_cache_get [of "mangaKey i" w] g by simp
  have l: "fst (mangaUseCase_load i w1) = fst (mangaRepo_GetByID i w)"
    using load_result [of i w1] repo_result_view [OF v] by simp
  have l': "fst (mangaUseCase_load i (emit (LogError ''decode manga'') w1))
              = fst (mangaRepo_GetByID i w)"
    using load_result [of i "emit (LogError ''decode manga'') w1"]
      repo_result_view [of "emit (LogError ''decode manga'') w1" w i] v by simp
  show ?thesis
  proof (cases r)
    case (Inl e)
    then show ?thesis using g l by (simp add: mangaUseCase_GetByID_def)
  next
    case (Inr c)
    show ?thesis
    proof (cases "c = Empty")
      case True
      then show ?thesis using g Inr l by (simp add: mangaUseCase_GetByID_def)
    next
      case False
      then show ?thesis
        using g Inr l'
        by (cases "Unmarshal_Manga c") (simp_all add: mangaUseCase_GetByID_def)
    qed
  qed
qed

lemma usecase_is_repo:
  assumes "coherent i w"
  shows "fst (mangaUseCase_GetByID i w) = fst (mangaRepo_GetByID i w)"
proof -
  from hit_or_repository [of i w] show ?thesis
  proof
    assume "\<exists>c w1 m. CacheRepository_Get (mangaKey i) w = (Inr c, w1) \<and> c \<noteq> Empty
       \<and> Unmarshal_Manga c = Inr m \<and> fst (mangaUseCase_GetByID i w) = Inr m"
    then obtain c w1 m where h: "CacheRepository_Get (mangaKey i) w = (Inr c, w1)"
      "c \<noteq> Empty" "Unmarshal_Manga c = Inr m" "fst (mangaUseCase_GetByID i w) = Inr m"
      by blast
    have v: "pg_view w1 = pg_view w" using view_cache_get [of "mangaKey i" w] h(1) by simp
    have "fst (mangaRepo_GetByID i w1) = Inr m"
      using assms h by (simp add: coherent_def)
    then show ?thesis using repo_result_view [OF v, of i] h(4) by simp
  qed
qed

text \<open>
  Claim C6, as stated, fails: the result of \<open>GetByID\<close> depends on whether the cache
  answers when the cache holds a text that the repository no longer agrees with. In
  \<open>stale\<close> (reached by an update during an outage of the key-value store) the same call
  returns the old manga when the \<open>Get\<close> succeeds and the new one when it fails.
\<close>

lemma stale_reached:
  "mangaUseCase_Update (berserk\<lparr>Manga_Title := ''Berserk Deluxe''\<rparr>)
     (shop_manga_read\<lparr>redisFaults := [True, True]\<rparr>) = (Inr remastered, stale)"
  by (simp add: mangaUseCase_Update_def mangaRepo_Update_def invalidateMangaListCache_def
        each_genre_def mangaKey_def manga_read_defs cache_defs stale_def remastered_def
        shop_manga_read_def berserk_def)

theorem cache_outcome_changes_result:
  "fst (mangaUseCase_GetByID 1 stale) = Inr berserk
   \<and> fst (mangaUseCase_GetByID 1 (stale\<lparr>redisFaults := [True, True]\<rparr>)) = Inr remastered
   \<and> fst (mangaUseCase_GetByID 1 stale)
       \<noteq> fst (mangaUseCase_GetByID 1 (stale\<lparr>redisFaults := [True, True]\<rparr>))"
  by (simp add: mangaUseCase_GetByID_def mangaUseCase_load_def mangaKey_def manga_read_defs
        cache_defs analytics_defs stale_def remastered_def berserk_def)

text \<open>
  Claim C6, amended. Take two runs of \<open>GetByID\<close> for the same ID that differ only in the
  cache subsystem (the contents of the key-value store and which of its commands fail). If
  in both the cache agrees with the repository on that manga (which is so whenever the
  \<open>Get\<close> misses, fails or serves a text that does not decode), both return the same
  entity and the same error, namely what the repository's \<open>GetByID\<close> answers: a failed
  \<open>Get\<close> is handled as a miss and a failed \<open>Set\<close> does not change the result. In every
  run an error result is the repository's not-found or database error, never an error of
  the cache layer.
\<close>

theorem cache_outcome_independence:
  "(coherent i w \<and> coherent i (w\<lparr>redisKV := kv, redisFaults := rf\<rparr>) \<longrightarrow>
      fst (mangaUseCase_GetByID i (w\<lparr>redisKV := kv, redisFaults := rf\<rparr>))
        = fst (mangaUseCase_GetByID i w)
      \<and> fst (mangaUseCase_GetByID i w) = fst (mangaRepo_GetByID i w))
   \<and> (\<forall>e. fst (mangaUseCase_GetByID i w) = Inl e \<longrightarrow>
          Code e = Some ErrorCodeMangaNotFound \<or> Code e = Some ErrorCodeDatabase)"
proof (intro conjI impI allI)
  assume a: "coherent i w \<and> coherent i (w\<lparr>redisKV := kv, redisFaults := rf\<rparr>)"
  have "pg_view (w\<lparr>redisKV := kv, redisFaults := rf\<rparr>) = pg_view w"
    by (simp add: pg_view_def)
  then have "fst (mangaRepo_GetByID i (w\<lparr>redisKV := kv, redisFaults := rf\<rparr>))
               = fst (mangaRepo_GetByID i w)"
    by (rule repo_result_view)
  then show "fst (mangaUseCase_GetByID i (w\<lparr>redisKV := kv, redisFaults := rf\<rparr>))
               = fst (mangaUseCase_GetByID i w)"
    using a usecase_is_repo [of i w] usecase_is_repo [of i "w\<lparr>redisKV := kv, redisFaults := rf\<rparr>"]
    by simp
  show "fst (mangaUseCase_GetByID i w) = fst (mangaRepo_GetByID i w)"
    using a usecase_is_repo [of i w] by simp
next
  fix e assume "fst (mangaUseCase_GetByID i w) = Inl e"
  then have "fst (mangaRepo_GetByID i w) = Inl e"
    using hit_or_repository [of i w] by auto
  then show "Code e = Some ErrorCodeMangaNotFound \<or> Code e = Some ErrorCodeDatabase"
    by (rule repo_error_code)
qed

theorem cache_outcome_independence_witness:
  "coherent 1 shop_manga_read
   \<and> coherent 1 (shop_manga_read\<lparr>redisKV := Map.empty, redisFaults := [True, True]\<rparr>)
   \<and> fst (mangaUseCase_GetByID 1
            (shop_manga_read\<lparr>redisKV := Map.empty, redisFaults := [True, True]\<rparr>))
       = Inr berserk
   \<and> fst (mangaUseCase_GetByID 1 shop_manga_read) = Inr berserk
   \<and> fst (mangaRepo_GetByID 1 shop_manga_read) = Inr berserk
   \<and> fst (mangaUseCase_GetByID 42 world0) = Inl (NewMangaNotFoundError 42)
   \<and> Code (NewMangaNotFoundError 42) = Some ErrorCodeMangaNotFound"
proof -
  have a: "coherent 1 shop_manga_read"
    by (simp add: coherent_def mangaKey_def manga_read_defs cache_defs)
  have b: "coherent 1 (shop_manga_read\<lparr>redisKV := Map.empty, redisFaults := [True, True]\<rparr>)"
    by (simp add: coherent_def mangaKey_def cache_defs)
  have c: "fst (mangaRepo_GetByID 1 shop_manga_read) = Inr berserk"
    by (simp add: manga_read_defs emit_def)
  have d: "fst (mangaUseCase_GetByID 42 world0) = Inl (NewMangaNotFoundError 42)"
    by (simp add: mangaUseCase_GetByID_def mangaUseCase_load_def mangaKey_def manga_read_defs
          cache_defs)
  have e: "Code (NewMangaNotFoundError 42) = Some ErrorCodeMangaNotFound"
    using cache_outcome_independence [where i = 42 and w = world0] d
    by (simp add: NewMangaNotFoundError_def)
  show ?thesis
    using cache_outcome_independence
            [where i = 1 and w = shop_manga_read and kv = Map.empty and rf = "[True, True]"]
      a b c d e
    by simp
qed

section \<open>Writes and the cached listing\<close>

lemma digits_chars: "digits n \<noteq> [] \<and> set (digits n) \<subseteq> set ''0123456789''"
proof (induction n rule: digits.induct)
  case (1 n)
  have d: "\<And>k. digit_char k \<in> set ''0123456789''" by (simp add: digit_char_def)
  show ?case
  proof (cases "n < 10")
    case True
    then show ?thesis using d [of n] by (simp add: digits.simps [of n])
  next
    case False
    then show ?thesis using 1 d [of "n mod 10"] by (simp add: digits.simps [of n])
  qed
qed

lemma fmt_d_chars: "fmt_d i \<noteq> [] \<and> CHR ''*'' \<notin> set (fmt_d i)"
  using digits_chars [of "nat i"] digits_chars [of "nat (- i)"]
  by (auto simp: fmt_d_def)

lemma list_key_not_literal: "mangaListKey limit offset \<noteq> ''manga:list:*''"
proof
  assume "mangaListKey limit offset = ''manga:list:*''"
  then have "fmt_d limit @ '':'' @ fmt_d offset = ''*''" by (simp add: mangaListKey_def)
  then have "CHR ''*'' \<in> set (fmt_d limit)"
    using fmt_d_chars [of limit] by (cases "fmt_d limit") auto
  then show False using fmt_d_chars [of limit] by simp
qed

text \<open>
  The invalidation step deletes the literal key, which is the key of no page of the
  listing: whatever the limit and the offset, the cached page stays as it was.
\<close>

lemma invalidation_keeps_every_page:
  "redisKV (snd (invalidateMangaListCache w)) (mangaListKey limit offset)
     = redisKV w (mangaListKey limit offset)"
  using list_key_not_literal [of limit offset]
  by (simp add: invalidateMangaListCache_def cache_defs split: list.splits prod.splits)

lemmas manga_write_defs = mangaUseCase_Create_def mangaUseCase_Update_def
  mangaUseCase_Delete_def mangaRepo_Create_def mangaRepo_Update_def mangaRepo_Delete_def
  invalidateMangaListCache_def each_genre_def

lemmas manga_list_defs = mangaUseCase_List_def mangaUseCase_listLoad_def unfiltered_def
  mangaRepo_List_def select_manga_def with_genres_def mangaListKey_def

lemma listing_warms: "mangaUseCase_List first_page shop = (Inr [berserk], warmed)"
  by (simp add: manga_list_defs first_page_def cache_defs manga_read_defs warmed_def)

text \<open>
  Claim C1 does not hold of the code. The first page of the unfiltered listing is read and
  cached. Then a manga is created, or the listed manga is retitled, or it is deleted; each
  write succeeds and its invalidation step deletes the key \<open>manga:list:*\<close>. After each of
  the three, the repository's listing has changed, yet \<open>List\<close> returns the page cached
  before the write and does not call the repository's \<open>List\<close>.
\<close>

theorem list_cache_survives_writes:
  "mangaUseCase_List first_page shop = (Inr [berserk], warmed)
   \<and> fst (mangaUseCase_Create vagabond warmed)
       = Inr (vagabond\<lparr>Manga_ID := 2, Manga_CreatedAt := 1000, Manga_UpdatedAt := 1000\<rparr>)
   \<and> cache_keys (since warmed after_create) = [''manga:list:*'']
   \<and> fst (mangaRepo_List first_page after_create)
       = Inr [vagabond\<lparr>Manga_ID := 2, Manga_CreatedAt := 1000, Manga_UpdatedAt := 1000\<rparr>,
              berserk]
   \<and> fst (mangaUseCase_List first_page after_create) = Inr [berserk]
   \<and> MangaRepoList
       \<notin> set (since after_create (snd (mangaUseCase_List first_page after_create)))
   \<and> fst (mangaUseCase_Update (berserk\<lparr>Manga_Title := ''Berserk Deluxe''\<rparr>) warmed)
       = Inr remastered
   \<and> cache_keys (since warmed after_update) = [''manga:1'', ''manga:list:*'']
   \<and> fst (mangaRepo_List first_page after_update) = Inr [remastered]
   \<and> fst (mangaUseCase_List first_page after_update) = Inr [berserk]
   \<and> MangaRepoList
       \<notin> set (since after_update (snd (mangaUseCase_List first_page after_update)))
   \<and> fst (mangaUseCase_Delete 1 warmed) = None
   \<and> cache_keys (since warmed after_delete) = [''manga:1'', ''manga:list:*'']
   \<and> fst (mangaRepo_List first_page after_delete) = Inr []
   \<and> fst (mangaUseCase_List first_page after_delete) = Inr [berserk]
   \<and> MangaRepoList
       \<notin> set (since after_delete (snd (mangaUseCase_List first_page after_delete)))"
proof -
  have c: "fst (mangaUseCase_Create vagabond warmed)
       = Inr (vagabond\<lparr>Manga_ID := 2, Manga_CreatedAt := 1000, Manga_UpdatedAt := 1000\<rparr>)
   \<and> cache_keys (since warmed after_create) = [''manga:list:*'']
   \<and> fst (mangaRepo_List first_page after_create)
       = Inr [vagabond\<lparr>Manga_ID := 2, Manga_CreatedAt := 1000, Manga_UpdatedAt := 1000\<rparr>,
              berserk]
   \<and> fst (mangaUseCase_List first_page after_create) = Inr [berserk]
   \<and> MangaRepoList
       \<notin> set (since after_create (snd (mangaUseCase_List first_page after_create)))"
    by (simp add: after_create_def manga_write_defs manga_list_defs first_page_def mangaKey_def
          cache_defs manga_read_defs warmed_def since_def vagabond_def berserk_def)
  have u: "fst (mangaUseCase_Update (berserk\<lparr>Manga_Title := ''Berserk Deluxe''\<rparr>) warmed)
       = Inr remastered
   \<and> cache_keys (since warmed after_update) = [''manga:1'', ''manga:list:*'']
   \<and> fst (mangaRepo_List first_page after_update) = Inr [remastered]
   \<and> fst (mangaUseCase_List first_page after_update) = Inr [berserk]
   \<and> MangaRepoList
       \<notin> set (since after_update (snd (mangaUseCase_List first_page after_update)))"
    by (simp add: after_update_def manga_write_defs manga_list_defs first_page_def mangaKey_def
          cache_defs manga_read_defs warmed_def since_def remastered_def berserk_def)
  have d: "fst (mangaUseCase_Delete 1 warmed) = None
   \<and> cache_keys (since warmed after_delete) = [''manga:1'', ''manga:list:*'']
   \<and> fst (mangaRepo_List first_page after_delete) = Inr []
   \<and> fst (mangaUseCase_List first_page after_delete) = Inr [berserk]
   \<and> MangaRepoList
       \<notin> set (since after_delete (snd (mangaUseCase_List first_page after_delete)))"
    by (simp add: after_delete_def manga_write_defs manga_list_defs first_page_def mangaKey_def
          cache_defs manga_read_defs warmed_def since_def)
  show ?thesis using listing_warms c u d by simp
qed

section \<open>Tokens\<close>

lemma signature_text: "\<not> Contains ''signature is invalid'' ''token istek''"
  by simp

declare Contains.simps [simp del]

lemma signature_not_expired [simp]: "\<not> Contains ''signature is invalid'' token_expired_text"
  by (simp add: token_expired_text_def signature_text)

lemma HasPrefix_refl [simp]: "HasPrefix s s"
  by (induction s) simp_all

lemma Contains_refl [simp]: "Contains s s"
  by (cases s) (simp_all add: Contains.simps)

lemmas jwt_defs = GenerateTokenPair_def GenerateAccessToken_def GenerateRefreshToken_def
  ValidateAccessToken_def ValidateRefreshToken_def validateToken_def ParseWithClaims_def
  Claims_Valid_def Verify_def



text \<open>
  The token service tells expiry apart, and the refresh use case passes that on; the
  middleware wraps every validation error alike.
\<close>

lemma expired_is_told_apart:
  assumes "Claims_ExpiresAt c = Some exp" "exp \<le> now"
  shows "validateToken now (Compact HS256 c (MAC HS256 secret)) secret
           = Inl (ErrorString token_expired_text)"
  using assms by (simp add: jwt_defs Let_def split: option.splits)

lemma expired_in_both_flows:
  assumes "Claims_ExpiresAt c = Some exp" "exp \<le> now"
  shows "userUseCase_RefreshToken s (Compact HS256 c (MAC HS256 (refreshSecret s)))
             (w\<lparr>clock := now\<rparr>)
           = (Inl NewJWTExpiredError, w\<lparr>clock := now\<rparr>)
     \<and> Authentication s now
           (Header ''Bearer'' (Some (Compact HS256 c (MAC HS256 (accessSecret s)))))
           = Responded (NewJWTInvalidError (ErrorString token_expired_text))"
  using expired_is_told_apart [OF assms, of "accessSecret s"]
    expired_is_told_apart [OF assms, of "refreshSecret s"]
  by (simp add: Authentication_def userUseCase_RefreshToken_def ValidateAccessToken_def
        ValidateRefreshToken_def)

text \<open>
  Claim C3 does not hold of the code on the access flow. The pair issued to a user at
  second 1000 is used after both tokens have expired. The refresh use case answers the
  expired refresh token with the code \<open>JWT_EXPIRED\<close>. The token service answers the expired
  access token with its expiry error too, but the authentication middleware responds with
  the code \<open>JWT_INVALID\<close>.
\<close>

theorem middleware_reports_expired_as_invalid:
  "GenerateTokenPair service 1000 alice
     = Inr \<lparr>AccessToken = alice_access, RefreshToken = alice_refresh\<rparr>
   \<and> fst (userUseCase_RefreshToken service alice_refresh (world0\<lparr>clock := 700000\<rparr>))
       = Inl NewJWTExpiredError
   \<and> Code NewJWTExpiredError = Some ErrorCodeJWTExpired
   \<and> ValidateAccessToken service 90000 alice_access = Inl (ErrorString token_expired_text)
   \<and> Authentication service 90000 (Header ''Bearer'' (Some alice_access))
       = Responded (NewJWTInvalidError (ErrorString token_expired_text))
   \<and> Code (NewJWTInvalidError (ErrorString token_expired_text)) = Some ErrorCodeJWTInvalid"
  by (simp add: jwt_defs Authentication_def userUseCase_RefreshToken_def service_def alice_def
        alice_access_def alice_refresh_def NewJWTExpiredError_def NewJWTInvalidError_def)

section \<open>Users\<close>

lemmas user_repo_defs = userRepo_GetByID_def user_select_def pg_statement_def emit_def

lemma user_get_cases:
  assumes "userRepo_GetByID i w = (r, w1)"
  shows "userTbl w1 = userTbl w \<and> clock w1 = clock w
    \<and> (\<exists>es. trace w1 = trace w @ UserRepoGetByID i # es)
    \<and> (\<forall>u. r = Inr u \<longrightarrow> find (\<lambda>u. User_ID u = i) (userTbl w) = Some u)"
  using assms
  by (auto simp: user_repo_defs split: list.splits option.splits)

lemma find_Some_id: "find (\<lambda>u. User_ID u = i) tbl = Some u \<Longrightarrow> User_ID u = i \<and> u \<in> set tbl"
  by (induction tbl) (auto split: if_splits)

text \<open>
  Claim C7. Let the refresh token validate, with claims \<open>c\<close>. The refresh use case then
  starts by fetching the user with the ID of \<open>c\<close> from the user repository. If the
  repository answers with an error (the user is not found, or the store fails), that error
  is the result and there is no pair. If it answers with a row, the result is the pair
  generated from that row now: the access token is signed with the access secret and its
  claims carry the ID of \<open>c\<close> and the row's name and role; the refresh token is signed
  with the refresh secret and its claims carry the ID of \<open>c\<close> and no name or role; both
  are issued at the current time for their configured lifetimes.
\<close>

theorem refresh_refetches_user:
  assumes "ValidateRefreshToken s (clock w) refreshToken = Inr c"
  shows "(\<forall>e w1. userRepo_GetByID (Claims_UserID c) w = (Inl e, w1) \<longrightarrow>
            userUseCase_RefreshToken s refreshToken w = (Inl e, w1))
     \<and> (\<forall>u w1. userRepo_GetByID (Claims_UserID c) w = (Inr u, w1) \<longrightarrow>
            (\<exists>pair ac rc. userUseCase_RefreshToken s refreshToken w = (Inr pair, w1)
               \<and> GenerateTokenPair s (clock w) u = Inr pair
               \<and> token_claims (AccessToken pair) = Some ac
               \<and> Claims_UserID ac = Claims_UserID c
               \<and> Claims_Username ac = User_Username u
               \<and> Claims_Role ac = User_Role u
               \<and> User_ID u = Claims_UserID c
               \<and> AccessToken pair = Compact HS256 ac (MAC HS256 (accessSecret s))
               \<and> ac = \<lparr>Claims_UserID = Claims_UserID c, Claims_Username = User_Username u,
                        Claims_Role = User_Role u,
                        Claims_ExpiresAt = Some (clock w + accessExpires s),
                        Claims_IssuedAt = Some (clock w), Claims_NotBefore = Some (clock w),
                        Claims_Subject = fmt_d (Claims_UserID c)\<rparr>
               \<and> token_claims (RefreshToken pair) = Some rc
               \<and> RefreshToken pair = Compact HS256 rc (MAC HS256 (refreshSecret s))
               \<and> rc = \<lparr>Claims_UserID = Claims_UserID c, Claims_Username = [],
                        Claims_Role = [],
                        Claims_ExpiresAt = Some (clock w + refreshExpires s),
                        Claims_IssuedAt = Some (clock w), Claims_NotBefore = Some (clock w),
                        Claims_Subject = fmt_d (Claims_UserID c)\<rparr>))
     \<and> (\<exists>es. since w (snd (userUseCase_RefreshToken s refreshToken w))
                = UserRepoGetByID (Claims_UserID c) # es)"
proof (intro conjI allI impI)
  fix e w1 assume "userRepo_GetByID (Claims_UserID c) w = (Inl e, w1)"
  then show "userUseCase_RefreshToken s refreshToken w = (Inl e, w1)"
    using assms by (simp add: userUseCase_RefreshToken_def)
next
  fix u w1 assume g: "userRepo_GetByID (Claims_UserID c) w = (Inr u, w1)"
  note g1 = user_get_cases [OF g]
  have "User_ID u = Claims_UserID c" using g1 find_Some_id by blast
  then show "\<exists>pair ac rc. userUseCase_RefreshToken s refreshToken w = (Inr pair, w1)
               \<and> GenerateTokenPair s (clock w) u = Inr pair
               \<and> token_claims (AccessToken pair) = Some ac
               \<and> Claims_UserID ac = Claims_UserID c
               \<and> Claims_Username ac = User_Username u
               \<and> Claims_Role ac = User_Role u
               \<and> User_ID u = Claims_UserID c
               \<and> AccessToken pair = Compact HS256 ac (MAC HS256 (accessSecret s))
               \<and> ac = \<lparr>Claims_UserID = Claims_UserID c, Claims_Username = User_Username u,
                        Claims_Role = User_Role u,
                        Claims_ExpiresAt = Some (clock w + accessExpires s),
                        Claims_IssuedAt = Some (clock w), Claims_NotBefore = Some (clock w),
                        Claims_Subject = fmt_d (Claims_UserID c)\<rparr>
               \<and> token_claims (RefreshToken pair) = Some rc
               \<and> RefreshToken pair = Compact HS256 rc (MAC HS256 (refreshSecret s))
               \<and> rc = \<lparr>Claims_UserID = Claims_UserID c, Claims_Username = [],
                        Claims_Role = [],
                        Claims_ExpiresAt = Some (clock w + refreshExpires s),
                        Claims_IssuedAt = Some (clock w), Claims_NotBefore = Some (clock w),
                        Claims_Subject = fmt_d (Claims_UserID c)\<rparr>"
    using assms g g1
    by (simp add: userUseCase_RefreshToken_def GenerateTokenPair_def GenerateAccessToken_def
          GenerateRefreshToken_def Let_def)
next
  obtain r w1 where g: "userRepo_GetByID (Claims_UserID c) w = (r, w1)"
    by (cases "userRepo_GetByID (Claims_UserID c) w")
  obtain es where t: "trace w1 = trace w @ UserRepoGetByID (Claims_UserID c) # es"
    using user_get_cases [OF g] by blast
  show "\<exists>es. since w (snd (userUseCase_RefreshToken s refreshToken w))
                = UserRepoGetByID (Claims_UserID c) # es"
    using assms g t
    by (cases r)
       (simp_all add: userUseCase_RefreshToken_def GenerateTokenPair_def
          GenerateAccessToken_def GenerateRefreshToken_def Let_def since_def)
qed

lemma registry_fields [simp]:
  "clock registry = 4600" "userSeq registry = 8" "pgFaults registry = []"
  "userTbl registry = [alice\<lparr>User_Username := ''alicia'', User_Role := ''user''\<rparr>]"
  "trace registry = []"
  by (simp_all add: registry_def)

lemma alice_fields [simp]:
  "User_ID alice = 7" "User_Username alice = ''alice''" "User_Role alice = ''admin''"
  "User_Password alice = ''$2a$10$wonderland''" "User_Email alice = ''alice@example.org''"
  "User_CreatedAt alice = 10" "User_UpdatedAt alice = 20"
  by (simp_all add: alice_def)

theorem refresh_refetches_user_witness:
  "ValidateRefreshToken service 4600 alice_refresh
     = Inr \<lparr>Claims_UserID = 7, Claims_Username = [], Claims_Role = [],
            Claims_ExpiresAt = Some 605800, Claims_IssuedAt = Some 1000,
            Claims_NotBefore = Some 1000, Claims_Subject = ''7''\<rparr>
   \<and> userUseCase_RefreshToken service alice_refresh registry
       = (Inr \<lparr>AccessToken =
                 Compact HS256
                   \<lparr>Claims_UserID = 7, Claims_Username = ''alicia'', Claims_Role = ''user'',
                    Claims_ExpiresAt = Some 91000, Claims_IssuedAt = Some 4600,
                    Claims_NotBefore = Some 4600, Claims_Subject = ''7''\<rparr>
                   (MAC HS256 ''your-secret-key''),
               RefreshToken =
                 Compact HS256
                   \<lparr>Claims_UserID = 7, Claims_Username = [], Claims_Role = [],
                    Claims_ExpiresAt = Some 609400, Claims_IssuedAt = Some 4600,
                    Claims_NotBefore = Some 4600, Claims_Subject = ''7''\<rparr>
                   (MAC HS256 ''your-refresh-secret-key'')\<rparr>,
          registry\<lparr>trace := [UserRepoGetByID 7]\<rparr>)
   \<and> userUseCase_RefreshToken service alice_refresh (world0\<lparr>clock := 4600\<rparr>)
       = (Inl (NewUserNotFoundError ''7''), world0\<lparr>clock := 4600, trace := [UserRepoGetByID 7]\<rparr>)"
proof -
  let ?c = "\<lparr>Claims_UserID = 7, Claims_Username = [], Claims_Role = [],
            Claims_ExpiresAt = Some 605800, Claims_IssuedAt = Some 1000,
            Claims_NotBefore = Some 1000, Claims_Subject = ''7''\<rparr>"
  have v: "ValidateRefreshToken service 4600 alice_refresh = Inr ?c"
    by (simp add: jwt_defs service_def alice_refresh_def)
  have v1: "ValidateRefreshToken service (clock registry) alice_refresh = Inr ?c"
    using v by simp
  have v2: "ValidateRefreshToken service (clock (world0\<lparr>clock := 4600\<rparr>)) alice_refresh = Inr ?c"
    using v by simp
  have g1: "userRepo_GetByID (Claims_UserID ?c) registry
              = (Inr (alice\<lparr>User_Username := ''alicia'', User_Role := ''user''\<rparr>),
                 registry\<lparr>trace := [UserRepoGetByID 7]\<rparr>)"
    by (simp add: user_repo_defs)
  have g2: "userRepo_GetByID (Claims_UserID ?c) (world0\<lparr>clock := 4600\<rparr>)
              = (Inl (NewUserNotFoundError ''7''),
                 world0\<lparr>clock := 4600, trace := [UserRepoGetByID 7]\<rparr>)"
    by (simp add: user_repo_defs)
  have s: "accessSecret service = ''your-secret-key''"
    "refreshSecret service = ''your-refresh-secret-key''"
    "accessExpires service = 86400" "refreshExpires service = 604800"
    by (simp_all add: service_def)
  show ?thesis
    using refresh_refetches_user [OF v1] refresh_refetches_user [OF v2] v g1 g2 s
    by auto
qed

text \<open>
  Claim C9. Whenever \<open>Register\<close>, \<open>GetProfile\<close> or \<open>UpdateProfile\<close> returns a user,
  the password field of that user is the empty string.
\<close>

theorem returned_users_carry_no_password:
  "(\<forall>u w'. userUseCase_Register reg w = (Inr u, w') \<longrightarrow> User_Password u = [])
   \<and> (\<forall>u w'. userUseCase_GetProfile userID w = (Inr u, w') \<longrightarrow> User_Password u = [])
   \<and> (\<forall>u w'. userUseCase_UpdateProfile user w = (Inr u, w') \<longrightarrow> User_Password u = [])"
proof (intro conjI allI impI)
  fix u w' assume "userUseCase_Register reg w = (Inr u, w')"
  then show "User_Password u = []"
    by (auto simp: userUseCase_Register_def register_store_def Let_def
          split: if_splits prod.splits sum.splits)
next
  fix u w' assume "userUseCase_GetProfile userID w = (Inr u, w')"
  then show "User_Password u = []"
    by (auto simp: userUseCase_GetProfile_def split: prod.splits sum.splits)
next
  fix u w' assume "userUseCase_UpdateProfile user w = (Inr u, w')"
  then show "User_Password u = []"
    by (auto simp: userUseCase_UpdateProfile_def Let_def
          split: if_splits prod.splits sum.splits option.splits)
qed

lemmas user_write_defs = userRepo_Create_def userRepo_Update_def userRepo_GetByUsername_def
  userRepo_GetByEmail_def user_write_error_def

lemma bob_ok:
  "username_ok ''bob_99''" "email_ok ''bob.b@mail.example.org''"
  "username_ok ''alice_l''" "email_ok ''liddell@example.org''"
  by (simp_all add: username_ok_def email_ok_def letter_def digit_def)

lemma bob_registers:
  "fst (userUseCase_Register bob registry)
     = Inr \<lparr>User_ID = 8, User_Username = ''bob_99'', User_Email = ''bob.b@mail.example.org'',
            User_Password = [], User_Role = ''user'', User_CreatedAt = 4600,
            User_UpdatedAt = 4600\<rparr>"
  by (simp add: userUseCase_Register_def register_store_def GenerateFromPassword_def bob_def
        bob_ok user_repo_defs user_write_defs NewUserNotFoundError_def)

lemma alice_profile:
  "fst (userUseCase_GetProfile 7 registry)
     = Inr (alice\<lparr>User_Username := ''alicia'', User_Role := ''user'', User_Password := []\<rparr>)"
  by (simp add: userUseCase_GetProfile_def user_repo_defs)

lemma alice_updates:
  "fst (userUseCase_UpdateProfile request registry)
     = Inr (alice\<lparr>User_Username := ''alice_l'', User_Email := ''liddell@example.org'',
                  User_Role := ''user'', User_Password := [], User_UpdatedAt := 4600\<rparr>)
   \<and> userTbl (snd (userUseCase_UpdateProfile request registry))
       = [alice\<lparr>User_Username := ''alice_l'', User_Email := ''liddell@example.org'',
                User_Role := ''user'', User_UpdatedAt := 4600\<rparr>]"
  by (simp add: userUseCase_UpdateProfile_def request_def bob_ok user_repo_defs
        user_write_defs alice_def)

theorem returned_users_carry_no_password_witness:
  "(\<exists>u. fst (userUseCase_Register bob registry) = Inr u \<and> User_Username u = ''bob_99''
         \<and> User_Password u = [])
   \<and> (\<exists>u. fst (userUseCase_GetProfile 7 registry) = Inr u \<and> User_Username u = ''alicia''
         \<and> User_Password u = [])
   \<and> (\<exists>u. fst (userUseCase_UpdateProfile request registry) = Inr u
         \<and> User_Username u = ''alice_l'' \<and> User_Password u = [])"
proof -
  note t = returned_users_carry_no_password
             [where reg = bob and w = registry and userID = 7 and user = request]
  obtain u1 where r1: "fst (userUseCase_Register bob registry) = Inr u1"
    "User_Username u1 = ''bob_99''"
    using bob_registers by simp
  obtain u2 where r2: "fst (userUseCase_GetProfile 7 registry) = Inr u2"
    "User_Username u2 = ''alicia''"
    using alice_profile by simp
  obtain u3 where r3: "fst (userUseCase_UpdateProfile request registry) = Inr u3"
    "User_Username u3 = ''alice_l''"
    using alice_updates by simp
  have p1: "User_Password u1 = []"
    using t r1(1) by (metis prod.collapse)
  have p2: "User_Password u2 = []"
    using t r2(1) by (metis prod.collapse)
  have p3: "User_Password u3 = []"
    using t r3(1) by (metis prod.collapse)
  show ?thesis using r1 r2 r3 p1 p2 p3 by blast
qed

subsection \<open>What a profile update writes\<close>

lemma id_unique:
  "distinct (map User_ID tbl) \<Longrightarrow> find (\<lambda>u. User_ID u = i) tbl = Some r0 \<Longrightarrow>
     r \<in> set tbl \<Longrightarrow> User_ID r = i \<Longrightarrow> r = r0"
proof (induction tbl)
  case Nil
  then show ?case by simp
next
  case (Cons a tbl)
  show ?case
  proof (cases "User_ID a = i")
    case True
    then have r0: "r0 = a" using Cons.prems(2) by simp
    have "User_ID a \<notin> User_ID ` set tbl" using Cons.prems(1) by simp
    then have "r \<notin> set tbl" using True Cons.prems(4) by (auto simp: image_iff)
    then show ?thesis using Cons.prems(3) r0 by simp
  next
    case False
    then show ?thesis using Cons by auto
  qed
qed

text \<open>Writing the fetched row's own role and password back changes neither.\<close>

lemma write_back_row:
  assumes "distinct (map User_ID tbl)" and "find (\<lambda>u. User_ID u = i) tbl = Some r0"
  shows "map (\<lambda>r. if User_ID r = i
                   then r\<lparr>User_Username := a, User_Email := b,
                          User_Password := User_Password r0,
                          User_Role := User_Role r0, User_UpdatedAt := t\<rparr>
                   else r) tbl
       = map (\<lambda>r. if User_ID r = i
                   then r\<lparr>User_Username := a, User_Email := b, User_UpdatedAt := t\<rparr>
                   else r) tbl"
proof (rule map_cong [OF refl])
  fix r assume m: "r \<in> set tbl"
  show "(if User_ID r = i
         then r\<lparr>User_Username := a, User_Email := b, User_Password := User_Password r0,
                User_Role := User_Role r0, User_UpdatedAt := t\<rparr>
         else r)
      = (if User_ID r = i
         then r\<lparr>User_Username := a, User_Email := b, User_UpdatedAt := t\<rparr> else r)"
  proof (cases "User_ID r = i")
    case True
    then have "r = r0" using id_unique [OF assms m] by simp
    then show ?thesis by simp
  next
    case False
    then show ?thesis by simp
  qed
qed

lemma user_update_cases:
  assumes "userRepo_Update cu w = (r, w')"
  shows "userTbl w' = userTbl w
     \<or> userTbl w' = map (\<lambda>r. if User_ID r = User_ID cu
                              then r\<lparr>User_Username := User_Username cu,
                                     User_Email := User_Email cu,
                                     User_Password := User_Password cu,
                                     User_Role := User_Role cu,
                                     User_UpdatedAt := clock w\<rparr>
                              else r) (userTbl w)"
  using assms
  by (auto simp: userRepo_Update_def user_write_error_def pg_statement_def emit_def
        split: list.splits option.splits if_splits)

lemma update_profile_table:
  assumes pk: "distinct (map User_ID (userTbl w))"
  shows "userTbl (snd (userUseCase_UpdateProfile user w)) = userTbl w
     \<or> userTbl (snd (userUseCase_UpdateProfile user w))
         = map (\<lambda>r. if User_ID r = User_ID user
                     then r\<lparr>User_Username := User_Username user,
                            User_Email := User_Email user, User_UpdatedAt := clock w\<rparr>
                     else r) (userTbl w)"
proof -
  obtain r w1 where g: "userRepo_GetByID (User_ID user) w = (r, w1)"
    by (cases "userRepo_GetByID (User_ID user) w")
  note g1 = user_get_cases [OF g]
  show ?thesis
  proof (cases r)
    case (Inl e)
    then show ?thesis using g g1 by (simp add: userUseCase_UpdateProfile_def)
  next
    case (Inr fetched)
    let ?cu = "fetched\<lparr>User_Username := User_Username user, User_Email := User_Email user\<rparr>"
    have f: "find (\<lambda>u. User_ID u = User_ID user) (userTbl w) = Some fetched"
      using g1 Inr by simp
    have idf: "User_ID fetched = User_ID user" using find_Some_id [OF f] by simp
    obtain r2 w2 where u: "userRepo_Update ?cu w1 = (r2, w2)"
      by (cases "userRepo_Update ?cu w1")
    obtain r3 w3 where g': "userRepo_GetByID (User_ID user) w2 = (r3, w3)"
      by (cases "userRepo_GetByID (User_ID user) w2")
    have t3: "userTbl w3 = userTbl w2" using user_get_cases [OF g'] by simp
    have t1: "userTbl w1 = userTbl w" "clock w1 = clock w" using g1 by simp_all
    have "userTbl w2 = userTbl w
       \<or> userTbl w2 = map (\<lambda>r. if User_ID r = User_ID user
                                then r\<lparr>User_Username := User_Username user,
                                       User_Email := User_Email user,
                                       User_Password := User_Password fetched,
                                       User_Role := User_Role fetched,
                                       User_UpdatedAt := clock w\<rparr>
                                else r) (userTbl w)"
      using user_update_cases [OF u] idf t1 by (simp cong: if_cong)
    then have t2: "userTbl w2 = userTbl w
       \<or> userTbl w2 = map (\<lambda>r. if User_ID r = User_ID user
                                then r\<lparr>User_Username := User_Username user,
                                       User_Email := User_Email user,
                                       User_UpdatedAt := clock w\<rparr>
                                else r) (userTbl w)"
      using write_back_row
              [OF pk f, where a = "User_Username user" and b = "User_Email user"
                 and t = "clock w"]
      by simp
    have "userTbl (snd (userUseCase_UpdateProfile user w)) = userTbl w1
       \<or> userTbl (snd (userUseCase_UpdateProfile user w)) = userTbl w2"
      using g Inr u g' t3
      by (auto simp: userUseCase_UpdateProfile_def Let_def split: option.splits sum.splits)
    then show ?thesis using t1 t2 by auto
  qed
qed

text \<open>
  Claim C10. Let the IDs of the stored users be distinct (the primary key). A profile
  update behaves the same whatever role and password the caller puts in its input. Whether
  it succeeds or fails, it leaves the table of users either as it was, or as it was but for
  the row with the ID of the input, in which exactly the name and the email are replaced by
  the input's and the time of the update is set by the store: every other row, and in that
  row the ID, the role, the password hash and the time of creation, are unchanged.
\<close>

theorem update_profile_keeps_role_and_password:
  assumes "distinct (map User_ID (userTbl w))"
  shows "userUseCase_UpdateProfile (user\<lparr>User_Role := role, User_Password := password\<rparr>) w
           = userUseCase_UpdateProfile user w
     \<and> (userTbl (snd (userUseCase_UpdateProfile user w)) = userTbl w
        \<or> userTbl (snd (userUseCase_UpdateProfile user w))
            = map (\<lambda>r. if User_ID r = User_ID user
                        then r\<lparr>User_Username := User_Username user,
                               User_Email := User_Email user, User_UpdatedAt := clock w\<rparr>
                        else r) (userTbl w))
     \<and> map (\<lambda>r. (User_ID r, User_Role r, User_Password r, User_CreatedAt r))
           (userTbl (snd (userUseCase_UpdateProfile user w)))
         = map (\<lambda>r. (User_ID r, User_Role r, User_Password r, User_CreatedAt r)) (userTbl w)"
proof (intro conjI)
  show "userUseCase_UpdateProfile (user\<lparr>User_Role := role, User_Password := password\<rparr>) w
           = userUseCase_UpdateProfile user w"
    by (simp add: userUseCase_UpdateProfile_def Let_def
          cong: prod.case_cong sum.case_cong option.case_cong if_cong)
  show t: "userTbl (snd (userUseCase_UpdateProfile user w)) = userTbl w
        \<or> userTbl (snd (userUseCase_UpdateProfile user w))
            = map (\<lambda>r. if User_ID r = User_ID user
                        then r\<lparr>User_Username := User_Username user,
                               User_Email := User_Email user, User_UpdatedAt := clock w\<rparr>
                        else r) (userTbl w)"
    by (rule update_profile_table [OF assms])
  have "map (\<lambda>r. (User_ID r, User_Role r, User_Password r, User_CreatedAt r))
          (map (\<lambda>r. if User_ID r = User_ID user
                        then r\<lparr>User_Username := User_Username user,
                               User_Email := User_Email user, User_UpdatedAt := clock w\<rparr>
                        else r) (userTbl w))
        = map (\<lambda>r. (User_ID r, User_Role r, User_Password r, User_CreatedAt r)) (userTbl w)"
    by (induction "userTbl w") simp_all
  then show "map (\<lambda>r. (User_ID r, User_Role r, User_Password r, User_CreatedAt r))
           (userTbl (snd (userUseCase_UpdateProfile user w)))
         = map (\<lambda>r. (User_ID r, User_Role r, User_Password r, User_CreatedAt r)) (userTbl w)"
    using t by auto
qed

lemma registry2_fields [simp]:
  "clock registry2 = 4600" "pgFaults registry2 = []" "trace registry2 = []"
  "userTbl registry2 = [carol, alice\<lparr>User_Username := ''alicia'', User_Role := ''user''\<rparr>]"
  by (simp_all add: registry2_def)

lemma carol_fields [simp]: "User_ID carol = 3"
  by (simp add: carol_def)

lemma alice_updates_beside_carol:
  "userTbl (snd (userUseCase_UpdateProfile request registry2))
     = [carol,
        alice\<lparr>User_Username := ''alice_l'', User_Email := ''liddell@example.org'',
              User_Role := ''user'', User_UpdatedAt := 4600\<rparr>]"
  by (simp add: userUseCase_UpdateProfile_def request_def bob_ok user_repo_defs
        user_write_defs alice_def)

theorem update_profile_keeps_role_and_password_witness:
  "distinct (map User_ID (userTbl registry2))
   \<and> userUseCase_UpdateProfile (request\<lparr>User_Role := ''root'', User_Password := ''guess''\<rparr>)
         registry2
       = userUseCase_UpdateProfile request registry2
   \<and> userTbl (snd (userUseCase_UpdateProfile request registry2))
       = [carol,
          alice\<lparr>User_Username := ''alice_l'', User_Email := ''liddell@example.org'',
                User_Role := ''user'', User_UpdatedAt := 4600\<rparr>]
   \<and> map (\<lambda>r. (User_ID r, User_Role r, User_Password r, User_CreatedAt r))
         (userTbl (snd (userUseCase_UpdateProfile request registry2)))
       = [(3, ''user'', ''$2a$10$lookingglass'', 30), (7, ''user'', ''$2a$10$wonderland'', 10)]"
proof -
  have d: "distinct (map User_ID (userTbl registry2))" by simp
  show ?thesis
    using update_profile_keeps_role_and_password
            [OF d, where user = request and role = "''root''" and password = "''guess''"]
      alice_updates_beside_carol d
    by (simp add: carol_def)
qed

end
